theory Spec2Isabelle
  imports Main
begin

section \<open>Library values the program computes with\<close>

subsection \<open>Decimal numbers under the default arithmetic context\<close>

text \<open>
  Prices and cash are Python \<^verbatim>\<open>decimal.Decimal\<close> values. A finite Decimal is a signed
  coefficient and a power of ten; \<open>Decimal c e\<close> stands for \<open>c * 10 ^ e\<close>. Every
  arithmetic operation computes the exact result and then rounds it to the 28 significant
  digits of the default context, ties to the even digit; comparisons are exact and numeric.
  Not represented: the special values (NaN, infinities, the sign of zero) and the exponent
  limits of the context (\<open>\<plusminus>999999\<close>).
\<close>

datatype decimal = Decimal (coeff: int) (expo: int)

definition prec :: nat where
  "prec = 28"

text \<open>
  The number of decimal digits of a magnitude (\<^verbatim>\<open>len(str(m))\<close>), counted by comparing
  with the powers of ten: \<open>digits_from m k p\<close> is called with \<open>p = 10 ^ k\<close>.
\<close>

function digits_from :: "int \<Rightarrow> nat \<Rightarrow> int \<Rightarrow> nat" where
  "digits_from m k p = (if m < p \<or> p \<le> 0 then k else digits_from m (Suc k) (p * 10))"
  by pat_completeness auto
termination
  by (relation "measure (\<lambda>(m, k, p). nat (m - p + 1))") auto

declare digits_from.simps [simp del]

definition ndigits :: "int \<Rightarrow> nat" where
  "ndigits m = digits_from m 1 10"

text \<open>
  \<open>round_half_even m d\<close> drops the last \<open>d\<close> digits of the magnitude \<open>m\<close>; \<open>Decimal_fix\<close>
  is the rounding every operation ends with. A coefficient that rounds up to
  \<open>10 ^ 28\<close> is cut by one more digit.
\<close>

definition round_half_even :: "int \<Rightarrow> nat \<Rightarrow> int" where
  "round_half_even m d =
     (let q = m div 10 ^ d; r = m mod 10 ^ d
      in if 10 ^ d < 2 * r \<or> (2 * r = 10 ^ d \<and> odd q) then q + 1 else q)"

definition Decimal_fix :: "decimal \<Rightarrow> decimal" where
  "Decimal_fix x =
     (let m = \<bar>coeff x\<bar>; n = ndigits m
      in if n \<le> prec then x
         else let d = n - prec; q = round_half_even m d
              in if prec < ndigits q
                 then Decimal (sgn (coeff x) * (q div 10)) (expo x + int d + 1)
                 else Decimal (sgn (coeff x) * q) (expo x + int d))"

definition aligned :: "decimal \<Rightarrow> int \<Rightarrow> int" where
  "aligned x e = coeff x * 10 ^ nat (expo x - e)"

definition dadd :: "decimal \<Rightarrow> decimal \<Rightarrow> decimal" where
  "dadd x y = (let e = min (expo x) (expo y)
               in Decimal_fix (Decimal (aligned x e + aligned y e) e))"

definition dneg :: "decimal \<Rightarrow> decimal" where
  "dneg x = Decimal (- coeff x) (expo x)"

definition dsub :: "decimal \<Rightarrow> decimal \<Rightarrow> decimal" where
  "dsub x y = dadd x (dneg y)"

definition dmul :: "decimal \<Rightarrow> decimal \<Rightarrow> decimal" where
  "dmul x y = Decimal_fix (Decimal (coeff x * coeff y) (expo x + expo y))"

definition dless :: "decimal \<Rightarrow> decimal \<Rightarrow> bool" where
  "dless x y = (let e = min (expo x) (expo y) in aligned x e < aligned y e)"

definition deq :: "decimal \<Rightarrow> decimal \<Rightarrow> bool" where
  "deq x y = (let e = min (expo x) (expo y) in aligned x e = aligned y e)"

definition truthy :: "decimal \<Rightarrow> bool" where
  "truthy x = (coeff x \<noteq> 0)"

definition Decimal_of_int :: "int \<Rightarrow> decimal" where
  "Decimal_of_int n = Decimal n 0"

subsection \<open>Binary floats and their exact conversion\<close>

text \<open>
  A finite float is a fraction with a power of two below: \<open>Float n k\<close> stands for
  \<open>n / 2 ^ k\<close>, the pair \<^verbatim>\<open>float.as_integer_ratio\<close> returns. \<^verbatim>\<open>Decimal(f)\<close> converts
  exactly, without rounding: \<open>n / 2 ^ k = n * 5 ^ k / 10 ^ k\<close>.
\<close>

datatype pyfloat = Float (numer: int) (denom_log2: nat)

definition Decimal_from_float :: "pyfloat \<Rightarrow> decimal" where
  "Decimal_from_float f = Decimal (numer f * 5 ^ denom_log2 f) (- int (denom_log2 f))"

subsection \<open>Calendar dates\<close>

text \<open>
  A date is its proleptic Gregorian day number (\<^verbatim>\<open>date.toordinal\<close>); adding
  \<^verbatim>\<open>timedelta(days=n)\<close> adds \<open>n\<close>. The calendar's upper end (year 9999) is not
  represented.
\<close>

type_synonym date = int

definition is_leap :: "int \<Rightarrow> bool" where
  "is_leap y = (y mod 4 = 0 \<and> (y mod 100 \<noteq> 0 \<or> y mod 400 = 0))"

definition days_before_year :: "int \<Rightarrow> int" where
  "days_before_year y = (y - 1) * 365 + (y - 1) div 4 - (y - 1) div 100 + (y - 1) div 400"

definition days_in_month :: "int \<Rightarrow> nat \<Rightarrow> int" where
  "days_in_month y m =
     (if m = 2 then (if is_leap y then 29 else 28)
      else if m \<in> {4, 6, 9, 11} then 30 else 31)"

definition days_before_month :: "int \<Rightarrow> nat \<Rightarrow> int" where
  "days_before_month y m = sum_list (map (days_in_month y) [1..<m])"

definition date_ymd :: "int \<Rightarrow> nat \<Rightarrow> int \<Rightarrow> date" where
  "date_ymd y m d = days_before_year y + days_before_month y m + d"

section \<open>history.py\<close>

subsection \<open>AssetPrice\<close>

record AssetPrice =
  LKOH :: decimal
  SBER :: decimal

text \<open>The dataclass fields in definition order, each with its accessor.\<close>

definition dataclass_fields :: "(string \<times> (AssetPrice \<Rightarrow> decimal)) list" where
  "dataclass_fields = [(''LKOH'', LKOH), (''SBER'', SBER)]"

text \<open>
  \<^verbatim>\<open>AssetPrice(**kwargs)\<close>: a field absent from the keyword arguments takes its default.
\<close>

definition AssetPrice_init :: "(string \<times> decimal) list \<Rightarrow> AssetPrice" where
  "AssetPrice_init kwargs =
     \<lparr> LKOH = (case map_of kwargs ''LKOH'' of Some v \<Rightarrow> v | None \<Rightarrow> Decimal_of_int 5896),
       SBER = (case map_of kwargs ''SBER'' of Some v \<Rightarrow> v | None \<Rightarrow> Decimal_of_int 250) \<rparr>"

text \<open>
  \<^verbatim>\<open>getattr(prices, name)\<close> finds a field, or one of the attributes every dataclass
  instance has besides its fields (methods, the class, the docstring, ...), or raises
  AttributeError. The names listed are those of CPython 3.10 to 3.12.
\<close>

datatype attribute = Field decimal | NotAPrice | AttributeError

definition object_attributes :: "string list" where
  "object_attributes =
     [''__annotations__'', ''__class__'', ''__dataclass_fields__'', ''__dataclass_params__'',
      ''__delattr__'', ''__dict__'', ''__dir__'', ''__doc__'', ''__eq__'', ''__format__'',
      ''__ge__'', ''__getattribute__'', ''__getstate__'', ''__gt__'', ''__hash__'',
      ''__init__'', ''__init_subclass__'', ''__le__'', ''__lt__'', ''__match_args__'',
      ''__module__'', ''__ne__'', ''__new__'', ''__reduce__'', ''__reduce_ex__'',
      ''__repr__'', ''__setattr__'', ''__sizeof__'', ''__str__'', ''__subclasshook__'',
      ''__weakref__'']"

definition getattr :: "AssetPrice \<Rightarrow> string \<Rightarrow> attribute" where
  "getattr prices name =
     (case map_of dataclass_fields name of
        Some field \<Rightarrow> Field (field prices)
      | None \<Rightarrow> if name \<in> set object_attributes then NotAPrice else AttributeError)"

subsection \<open>The three price histories\<close>

text \<open>
  \<^verbatim>\<open>random.Random\<close> is library code: its state is a type parameter \<open>'r\<close>, and the two
  methods the program calls are parameters of the model, \<open>seed_rng\<close> (the state after
  \<^verbatim>\<open>seed(n)\<close>, which depends on \<open>n\<close> alone) and \<open>uniform\<close> (the float drawn for a range,
  and the state after the draw).
\<close>

datatype 'r AssetPriceHistory =
    ChaosAssetPriceHistory (price_multiplier: "pyfloat \<times> pyfloat") (seed: int) (random: 'r)
  | ChillAssetPriceHistory
  | RealAssetPriceHistory

type_synonym 'r uniform = "pyfloat \<times> pyfloat \<Rightarrow> 'r \<Rightarrow> pyfloat \<times> 'r"

text \<open>
  The dataclass constructor with \<^verbatim>\<open>__post_init__\<close>: \<^verbatim>\<open>Random()\<close> starts from operating
  system entropy (\<open>entropy\<close>), then \<^verbatim>\<open>seed(self.seed)\<close> replaces that state.
\<close>

definition ChaosAssetPriceHistory_init ::
    "(int \<Rightarrow> 'r) \<Rightarrow> pyfloat \<times> pyfloat \<Rightarrow> int \<Rightarrow> 'r \<Rightarrow> 'r AssetPriceHistory" where
  "ChaosAssetPriceHistory_init seed_rng pm sd entropy =
     (let h = ChaosAssetPriceHistory pm sd entropy
      in ChaosAssetPriceHistory (price_multiplier h) (seed h) (seed_rng (seed h)))"

definition default_price_multiplier :: "pyfloat \<times> pyfloat" where
  "default_price_multiplier = (Float 1 1, Float 3 1)"

definition default_seed :: int where
  "default_seed = 42"

text \<open>
  The dictionary comprehension of \<^verbatim>\<open>ChaosAssetPriceHistory.__iter__\<close>: for each field in
  order, one draw; the entry is kept when the multiplier is truthy (not zero).
\<close>

fun chaos_kwargs ::
    "'r uniform \<Rightarrow> pyfloat \<times> pyfloat \<Rightarrow> AssetPrice \<Rightarrow> (string \<times> (AssetPrice \<Rightarrow> decimal)) list
      \<Rightarrow> 'r \<Rightarrow> (string \<times> decimal) list \<times> 'r" where
  "chaos_kwargs uniform pm base_asset_price [] r = ([], r)"
| "chaos_kwargs uniform pm base_asset_price ((field, get) # flds) r =
     (let (x, r') = uniform pm r;
          multiplier = Decimal_from_float x;
          (kwargs, r'') = chaos_kwargs uniform pm base_asset_price flds r'
      in ((if truthy multiplier then [(field, dmul (get base_asset_price) multiplier)] else [])
            @ kwargs, r''))"

text \<open>
  A generator object: the local variables of the suspended \<^verbatim>\<open>__iter__\<close> frame.
  \<open>today\<close> is unset until the first \<^verbatim>\<open>next\<close>, which reads the clock.
\<close>

datatype generator =
    ChaosGen "date option" nat
  | ChillGen "date option" nat
  | RealGen nat

definition real_table :: "(date \<times> AssetPrice) list" where
  "real_table =
     [(date_ymd 2023 9 10, \<lparr>LKOH = Decimal_of_int 6669, SBER = Decimal_of_int 255\<rparr>),
      (date_ymd 2023 9 11, \<lparr>LKOH = Decimal_of_int 6456, SBER = Decimal_of_int 256\<rparr>),
      (date_ymd 2023 9 12, \<lparr>LKOH = Decimal_of_int 6729, SBER = Decimal_of_int 262\<rparr>),
      (date_ymd 2023 9 13, \<lparr>LKOH = Decimal_of_int 6610, SBER = Decimal_of_int 258\<rparr>),
      (date_ymd 2023 9 14, \<lparr>LKOH = Decimal_of_int 6519, SBER = Decimal_of_int 260\<rparr>),
      (date_ymd 2023 9 15, \<lparr>LKOH = Decimal_of_int 6553, SBER = Decimal_of_int 260\<rparr>),
      (date_ymd 2023 9 16, \<lparr>LKOH = Decimal_of_int 6527, SBER = Decimal_of_int 260\<rparr>),
      (date_ymd 2023 9 17, \<lparr>LKOH = Decimal_of_int 6566, SBER = Decimal_of_int 263\<rparr>)]"

definition iter :: "'r AssetPriceHistory \<Rightarrow> generator" where
  "iter h = (case h of
       ChaosAssetPriceHistory pm sd r \<Rightarrow> ChaosGen None 0
     | ChillAssetPriceHistory \<Rightarrow> ChillGen None 0
     | RealAssetPriceHistory \<Rightarrow> RealGen 0)"

text \<open>
  \<^verbatim>\<open>next(generator)\<close>: the pair yielded, or \<open>None\<close> for StopIteration; with it the history
  object (whose random stream the draw advances) and the generator after the step.
  \<open>clock\<close> is what \<^verbatim>\<open>date.today()\<close> returns at the time of the call. A generator runs
  on the history that made it; the last equation covers the other pairs, which never occur.
\<close>

fun gen_next ::
    "'r uniform \<Rightarrow> date \<Rightarrow> 'r AssetPriceHistory \<Rightarrow> generator
      \<Rightarrow> (date \<times> AssetPrice) option \<times> 'r AssetPriceHistory \<times> generator" where
  "gen_next uniform clock (ChaosAssetPriceHistory pm sd r) (ChaosGen t day) =
     (let today = (case t of None \<Rightarrow> clock | Some d \<Rightarrow> d);
          base_asset_price = AssetPrice_init [];
          date' = today + int day
      in if day = 0
         then (Some (date', base_asset_price),
               ChaosAssetPriceHistory pm sd r, ChaosGen (Some today) (Suc day))
         else let (kwargs, r') = chaos_kwargs uniform pm base_asset_price dataclass_fields r
              in (Some (date', AssetPrice_init kwargs),
                  ChaosAssetPriceHistory pm sd r', ChaosGen (Some today) (Suc day)))"
| "gen_next uniform clock ChillAssetPriceHistory (ChillGen t day) =
     (let today = (case t of None \<Rightarrow> clock | Some d \<Rightarrow> d);
          asset_price = AssetPrice_init [];
          date' = today + int day
      in (Some (date', asset_price), ChillAssetPriceHistory, ChillGen (Some today) (Suc day)))"
| "gen_next uniform clock RealAssetPriceHistory (RealGen i) =
     (if i < length real_table
      then (Some (real_table ! i), RealAssetPriceHistory, RealGen (Suc i))
      else (None, RealAssetPriceHistory, RealGen i))"
| "gen_next uniform clock h g = (None, h, g)"

text \<open>
  \<^verbatim>\<open>islice(history, n)\<close> as the module's example uses it: a fresh generator, pulled
  \<open>n\<close> times or until it stops. \<open>clock k\<close> is the wall-clock date at the \<open>k\<close>-th pull.
\<close>

fun pull :: "'r uniform \<Rightarrow> (nat \<Rightarrow> date) \<Rightarrow> nat \<Rightarrow> nat \<Rightarrow> 'r AssetPriceHistory \<Rightarrow> generator
      \<Rightarrow> (date \<times> AssetPrice) list \<times> 'r AssetPriceHistory \<times> generator" where
  "pull uniform clock k 0 h g = ([], h, g)"
| "pull uniform clock k (Suc n) h g =
     (case gen_next uniform (clock k) h g of
        (None, h', g') \<Rightarrow> ([], h', g')
      | (Some x, h', g') \<Rightarrow>
          (let (xs, h'', g'') = pull uniform clock (Suc k) n h' g' in (x # xs, h'', g'')))"

definition islice ::
    "'r uniform \<Rightarrow> (nat \<Rightarrow> date) \<Rightarrow> 'r AssetPriceHistory \<Rightarrow> nat
      \<Rightarrow> (date \<times> AssetPrice) list \<times> 'r AssetPriceHistory" where
  "islice uniform clock h n = (let (xs, h', g') = pull uniform clock 0 n h (iter h) in (xs, h'))"

section \<open>trading-simulation.py\<close>

datatype exn =
    NotEnoughCash | WrongAssetName | NotEnoughAsset | StopGameException
  | StopIteration | TypeError | FileNotFoundError

record 'r PortfolioSimulator =
  history :: "'r AssetPriceHistory"
  cash :: decimal
  assets :: "string \<rightharpoonup> int"
  days :: generator
  current_date :: date
  current_prices :: AssetPrice
  initial_value :: decimal
  logo :: string

text \<open>
  Every method returns the exception it raised, if any, together with the object as the
  call left it: Python mutates the simulator in place, so a raise does not undo anything.
\<close>

definition next_day ::
    "'r uniform \<Rightarrow> date \<Rightarrow> 'r PortfolioSimulator \<Rightarrow> exn option \<times> 'r PortfolioSimulator" where
  "next_day uniform clock s =
     (case gen_next uniform clock (history s) (days s) of
        (None, h, g) \<Rightarrow> (Some StopIteration, s\<lparr>history := h, days := g\<rparr>)
      | (Some (d, p), h, g) \<Rightarrow>
          (None, s\<lparr>history := h, days := g, current_date := d, current_prices := p\<rparr>))"

text \<open>\<^verbatim>\<open>self.assets[asset]\<close> on the \<^verbatim>\<open>defaultdict(int)\<close>: a missing key is inserted with 0.\<close>

definition defaultdict_getitem :: "(string \<rightharpoonup> int) \<Rightarrow> string \<Rightarrow> int \<times> (string \<rightharpoonup> int)" where
  "defaultdict_getitem m k = (case m k of None \<Rightarrow> (0, m(k \<mapsto> 0)) | Some v \<Rightarrow> (v, m))"

text \<open>
  \<^verbatim>\<open>buy\<close> and \<^verbatim>\<open>sell\<close>. Only AttributeError is caught and turned into WrongAssetName. An
  attribute that is not a price gets through \<^verbatim>\<open>getattr\<close>, and multiplying it by the quantity
  or comparing or adding the product with the cash raises a built-in error before anything
  is assigned: TypeError (the model does not tell apart the OverflowError or MemoryError
  that repeating a string by an enormous quantity raises instead).
\<close>

definition buy ::
    "'r PortfolioSimulator \<Rightarrow> string \<Rightarrow> int \<Rightarrow> exn option \<times> 'r PortfolioSimulator" where
  "buy s asset amount =
     (case getattr (current_prices s) asset of
        AttributeError \<Rightarrow> (Some WrongAssetName, s)
      | NotAPrice \<Rightarrow> (Some TypeError, s)
      | Field price \<Rightarrow>
          (let cost = dmul price (Decimal_of_int amount)
           in if dless (cash s) cost then (Some NotEnoughCash, s)
              else (let s1 = s\<lparr>cash := dsub (cash s) cost\<rparr>;
                        (quantity, m) = defaultdict_getitem (assets s1) asset
                    in (None, s1\<lparr>assets := m(asset \<mapsto> quantity + amount)\<rparr>))))"

definition sell ::
    "'r PortfolioSimulator \<Rightarrow> string \<Rightarrow> int \<Rightarrow> exn option \<times> 'r PortfolioSimulator" where
  "sell s asset amount =
     (case assets s asset of
        None \<Rightarrow> (Some WrongAssetName, s)
      | Some current_quantity \<Rightarrow>
          if current_quantity < amount then (Some NotEnoughAsset, s)
          else (case getattr (current_prices s) asset of
                  AttributeError \<Rightarrow> (Some WrongAssetName, s)
                | NotAPrice \<Rightarrow> (Some TypeError, s)
                | Field price \<Rightarrow>
                    (let s1 = s\<lparr>cash := dadd (cash s) (dmul price (Decimal_of_int amount))\<rparr>
                     in (None, s1\<lparr>assets := (assets s1)(asset \<mapsto> current_quantity - amount)\<rparr>))))"

text \<open>
  The list comprehension of \<^verbatim>\<open>asset_values\<close>, with the holdings mapping as the reads
  leave it.
\<close>

fun asset_values_loop ::
    "AssetPrice \<Rightarrow> (string \<times> (AssetPrice \<Rightarrow> decimal)) list \<Rightarrow> (string \<rightharpoonup> int)
      \<Rightarrow> (string \<times> int \<times> decimal) list \<times> (string \<rightharpoonup> int)" where
  "asset_values_loop prices [] m = ([], m)"
| "asset_values_loop prices ((asset, get) # flds) m =
     (let (quantity, m') = defaultdict_getitem m asset;
          (rest, m'') = asset_values_loop prices flds m'
      in ((if quantity \<noteq> 0
           then [(asset, quantity, dmul (get prices) (Decimal_of_int quantity))] else []) @ rest,
          m''))"

definition asset_values ::
    "'r PortfolioSimulator \<Rightarrow> (string \<times> int \<times> decimal) list \<times> 'r PortfolioSimulator" where
  "asset_values s =
     (let (vs, m) = asset_values_loop (current_prices s) dataclass_fields (assets s)
      in (vs, s\<lparr>assets := m\<rparr>))"

text \<open>\<^verbatim>\<open>sum\<close> starts from the integer 0, which the first addition converts.\<close>

definition sum_decimal :: "decimal list \<Rightarrow> decimal" where
  "sum_decimal xs = foldl dadd (Decimal_of_int 0) xs"

definition "value" :: "'r PortfolioSimulator \<Rightarrow> decimal \<times> 'r PortfolioSimulator" where
  "value s =
     (let (vs, s') = asset_values s
      in (dadd (cash s) (sum_decimal (map (\<lambda>(_, _, price). price) vs)), s'))"

definition profit :: "'r PortfolioSimulator \<Rightarrow> decimal \<times> 'r PortfolioSimulator" where
  "profit s = (let (v, s') = value s in (dsub v (initial_value s'), s'))"

text \<open>
  The dataclass constructor with \<^verbatim>\<open>__post_init__\<close>. \<open>logo_txt\<close> is the content of the
  file \<^verbatim>\<open>logo.txt\<close> beside the script, \<open>None\<close> when it cannot be read. A raise leaves no
  object behind.
\<close>

definition PortfolioSimulator_init ::
    "'r uniform \<Rightarrow> date \<Rightarrow> string option \<Rightarrow> 'r AssetPriceHistory \<Rightarrow> decimal \<Rightarrow> (string \<rightharpoonup> int)
      \<Rightarrow> exn + 'r PortfolioSimulator" where
  "PortfolioSimulator_init uniform clock logo_txt h c a =
     (if dless c (Decimal_of_int 0) then Inl NotEnoughCash
      else case gen_next uniform clock h (iter h) of
             (None, h', g) \<Rightarrow> Inl StopIteration
           | (Some (d, p), h', g) \<Rightarrow>
               (let s = \<lparr> history = h', cash = c, assets = a, days = g, current_date = d,
                          current_prices = p, initial_value = Decimal_of_int 0, logo = [] \<rparr>;
                    (v, s') = value s
                in case logo_txt of
                     None \<Rightarrow> Inl FileNotFoundError
                   | Some txt \<Rightarrow> Inr (s'\<lparr>initial_value := v, logo := txt\<rparr>)))"

definition default_cash :: decimal where
  "default_cash = Decimal_of_int 100000"

text \<open>\<open>k\<close> successive \<^verbatim>\<open>next_day\<close> calls, stopping at the first that raises.\<close>

fun next_days ::
    "'r uniform \<Rightarrow> (nat \<Rightarrow> date) \<Rightarrow> nat \<Rightarrow> 'r PortfolioSimulator
      \<Rightarrow> exn option \<times> 'r PortfolioSimulator" where
  "next_days uniform clock 0 s = (None, s)"
| "next_days uniform clock (Suc k) s =
     (case next_days uniform clock k s of
        (Some e, s') \<Rightarrow> (Some e, s')
      | (None, s') \<Rightarrow> next_day uniform (clock k) s')"

section \<open>Reading the random stream\<close>

text \<open>
  \<open>skip_draws n r\<close> is the stream state after \<open>n\<close> draws from \<open>r\<close>, and \<open>draw r i\<close> the
  multiplier the program makes of draw number \<open>i\<close> (counted from 0): the float, converted
  exactly. \<open>scaled\<close> is one entry of the dictionary comprehension followed by the
  constructor's default: the base price times the multiplier, or the base price itself when
  the multiplier is zero. \<open>chaos_snapshot r k\<close> is the snapshot that day \<open>k > 0\<close> of an
  iteration gets when the iteration started with the stream in state \<open>r\<close>.
\<close>

definition skip_draws :: "'r uniform \<Rightarrow> pyfloat \<times> pyfloat \<Rightarrow> nat \<Rightarrow> 'r \<Rightarrow> 'r" where
  "skip_draws uniform pm n r = ((\<lambda>x. snd (uniform pm x)) ^^ n) r"

definition draw :: "'r uniform \<Rightarrow> pyfloat \<times> pyfloat \<Rightarrow> 'r \<Rightarrow> nat \<Rightarrow> decimal" where
  "draw uniform pm r i = Decimal_from_float (fst (uniform pm (skip_draws uniform pm i r)))"

definition scaled :: "decimal \<Rightarrow> decimal \<Rightarrow> decimal" where
  "scaled base multiplier = (if truthy multiplier then dmul base multiplier else base)"

definition chaos_snapshot :: "'r uniform \<Rightarrow> pyfloat \<times> pyfloat \<Rightarrow> 'r \<Rightarrow> nat \<Rightarrow> AssetPrice" where
  "chaos_snapshot uniform pm r k =
     \<lparr> LKOH = scaled (Decimal_of_int 5896) (draw uniform pm r (2 * (k - 1))),
       SBER = scaled (Decimal_of_int 250) (draw uniform pm r (2 * (k - 1) + 1)) \<rparr>"

section \<open>Predicates on simulator states\<close>

text \<open>
  The quantity held of an asset, zero when the mapping has no record of it. A state is
  solvent when cash and every recorded quantity are zero or more.
\<close>

definition holding :: "'r PortfolioSimulator \<Rightarrow> string \<Rightarrow> int" where
  "holding s a = (case assets s a of None \<Rightarrow> 0 | Some q \<Rightarrow> q)"

definition solvent :: "'r PortfolioSimulator \<Rightarrow> bool" where
  "solvent s \<longleftrightarrow> 0 \<le> coeff (cash s) \<and> (\<forall>a q. assets s a = Some q \<longrightarrow> 0 \<le> q)"

definition prices_nonneg :: "AssetPrice \<Rightarrow> bool" where
  "prices_nonneg p \<longleftrightarrow> 0 \<le> coeff (LKOH p) \<and> 0 \<le> coeff (SBER p)"

text \<open>The simulator stands on entry \<open>i\<close> of the replayed table.\<close>

definition on_real_day :: "nat \<Rightarrow> 'r PortfolioSimulator \<Rightarrow> bool" where
  "on_real_day i s \<longleftrightarrow>
     history s = RealAssetPriceHistory \<and> days s = RealGen (Suc i) \<and>
     (current_date s, current_prices s) = real_table ! i"

text \<open>The asset identifiers of a snapshot: the names of the dataclass fields.\<close>

definition field_names :: "string set" where
  "field_names = fst ` set dataclass_fields"

text \<open>
  The states a simulator goes through when it is constructed, with any holdings, and then
  used through its methods and properties, with any arguments. The set carried along
  collects the names that the simulator may hold a quantity of: those the constructor was
  given a quantity other than zero of, those named in a \<^verbatim>\<open>buy\<close> call, and those named in
  a \<^verbatim>\<open>sell\<close> call with a negative quantity.
\<close>

inductive reachable :: "'r uniform \<Rightarrow> string set \<Rightarrow> 'r PortfolioSimulator \<Rightarrow> bool"
  for uniform where
  constructed:
    "PortfolioSimulator_init uniform clock logo_txt h c a = Inr s \<Longrightarrow>
       reachable uniform {k. a k \<noteq> None \<and> a k \<noteq> Some 0} s"
| bought:
    "reachable uniform T s \<Longrightarrow> reachable uniform (insert asset T) (snd (buy s asset amount))"
| sold:
    "reachable uniform T s \<Longrightarrow> 0 \<le> amount \<Longrightarrow> reachable uniform T (snd (sell s asset amount))"
| sold_negative:
    "reachable uniform T s \<Longrightarrow> amount < 0 \<Longrightarrow>
       reachable uniform (insert asset T) (snd (sell s asset amount))"
| advanced: "reachable uniform T s \<Longrightarrow> reachable uniform T (snd (next_day uniform clock s))"
| listed: "reachable uniform T s \<Longrightarrow> reachable uniform T (snd (asset_values s))"
| valued: "reachable uniform T s \<Longrightarrow> reachable uniform T (snd (value s))"
| profited: "reachable uniform T s \<Longrightarrow> reachable uniform T (snd (profit s))"

text \<open>
  Exact arithmetic inside the Decimal one. \<open>aligned x g\<close> is the number \<open>x\<close> counted in units
  of \<open>10 ^ g\<close> (where \<open>g\<close> is at most the exponent of \<open>x\<close>); \<open>exact g x u\<close> says that \<open>x\<close> is
  \<open>u\<close> such units. \<open>total_units\<close> is cash plus holdings times prices in these units,
  computed in the integers, and a state fits when cash and prices are whole numbers of
  units and that total has at most 28 digits.
\<close>

definition exact :: "int \<Rightarrow> decimal \<Rightarrow> int \<Rightarrow> bool" where
  "exact g x u \<longleftrightarrow> g \<le> expo x \<and> aligned x g = u"

definition total_units :: "int \<Rightarrow> 'r PortfolioSimulator \<Rightarrow> int" where
  "total_units g s =
     aligned (cash s) g
       + holding s ''LKOH'' * aligned (LKOH (current_prices s)) g
       + holding s ''SBER'' * aligned (SBER (current_prices s)) g"

definition fits :: "int \<Rightarrow> 'r PortfolioSimulator \<Rightarrow> bool" where
  "fits g s \<longleftrightarrow>
     g \<le> 0 \<and> g \<le> expo (cash s) \<and> g \<le> expo (LKOH (current_prices s)) \<and>
     g \<le> expo (SBER (current_prices s)) \<and> total_units g s < 10 ^ prec"

section \<open>Concrete inputs\<close>

text \<open>
  A random stream given by the list of floats it will return, for evaluating the model
  on concrete runs. Once the list is used up it returns the lower end of the range.
\<close>

definition script_uniform :: "pyfloat list uniform" where
  "script_uniform pm r = (case r of [] \<Rightarrow> (fst pm, []) | x # xs \<Rightarrow> (x, xs))"

text \<open>Seeding such a stream: whatever the seed, the list given.\<close>

definition script_seed :: "pyfloat list \<Rightarrow> int \<Rightarrow> pyfloat list" where
  "script_seed xs sd = xs"

text \<open>A clock that stays on one date, and one that moves a day ahead with every pull.\<close>

definition same_day :: "date \<Rightarrow> nat \<Rightarrow> date" where
  "same_day d k = d"

definition running_clock :: "date \<Rightarrow> nat \<Rightarrow> date" where
  "running_clock d k = d + int k"

text \<open>
  The first six floats that CPython's \<^verbatim>\<open>Random\<close>, seeded with 42, returns for
  \<^verbatim>\<open>uniform(0.5, 1.5)\<close> (1.1394267984578836, 0.5250107552226669, 0.7750293183691193,
  0.7232107381488228, 1.2364712141640124, 1.1766994874229113), and the default
  \<^verbatim>\<open>ChaosAssetPriceHistory()\<close> reading them.
\<close>

definition seed42_draws :: "pyfloat list" where
  "seed42_draws =
     [Float 2565761052475441 51, Float 4728876483172611 53, Float 3490421749408375 52,
      Float 6514103221674759 53, Float 5568571299363391 52, Float 5299383373084877 52]"

definition chaos42 :: "pyfloat list AssetPriceHistory" where
  "chaos42 = ChaosAssetPriceHistory_init (script_seed seed42_draws)
               default_price_multiplier default_seed []"


text \<open>
  The simulator as \<^verbatim>\<open>PortfolioSimulator(cash=c)\<close> leaves it, on the first day of the replayed
  history.
\<close>

definition real_start :: "decimal \<Rightarrow> pyfloat list PortfolioSimulator" where
  "real_start c =
     \<lparr> history = RealAssetPriceHistory, cash = c,
       assets = [''LKOH'' \<mapsto> 0, ''SBER'' \<mapsto> 0], days = RealGen 1,
       current_date = date_ymd 2023 9 10,
       current_prices = \<lparr>LKOH = Decimal_of_int 6669, SBER = Decimal_of_int 255\<rparr>,
       initial_value = dadd c (Decimal_of_int 0), logo = ''logo'' \<rparr>"

text \<open>
  The simulator as \<^verbatim>\<open>PortfolioSimulator(assets=defaultdict(int, {'GAZP': 5}))\<close> and as
  \<^verbatim>\<open>PortfolioSimulator(assets=defaultdict(int, {'SBER': 5}))\<close> leave it, on the first day of
  the replayed history. GAZP is no asset of the snapshot and adds nothing to the initial
  value; five SBER at 255 add 1275 to it.
\<close>

definition gazp_start :: "pyfloat list PortfolioSimulator" where
  "gazp_start =
     (real_start default_cash)\<lparr>assets := [''GAZP'' \<mapsto> 5, ''LKOH'' \<mapsto> 0, ''SBER'' \<mapsto> 0]\<rparr>"

definition sber_start :: "pyfloat list PortfolioSimulator" where
  "sber_start =
     (real_start default_cash)
       \<lparr>assets := [''SBER'' \<mapsto> 5, ''LKOH'' \<mapsto> 0], initial_value := Decimal 101275 0\<rparr>"

text \<open>
  The simulator as \<^verbatim>\<open>PortfolioSimulator(history=ChillAssetPriceHistory())\<close> leaves it: cash
  100000, SBER at 250.
\<close>

definition chill_start :: "pyfloat list PortfolioSimulator" where
  "chill_start =
     \<lparr> history = ChillAssetPriceHistory, cash = Decimal_of_int 100000,
       assets = [''LKOH'' \<mapsto> 0, ''SBER'' \<mapsto> 0], days = ChillGen (Some 739000) 1,
       current_date = 739000,
       current_prices = \<lparr>LKOH = Decimal_of_int 5896, SBER = Decimal_of_int 250\<rparr>,
       initial_value = Decimal_of_int 100000, logo = ''logo'' \<rparr>"

text \<open>A starting cash of 29 digits, as \<^verbatim>\<open>--cash 20000000000000000000000000010\<close> gives it.\<close>

definition big_cash :: decimal where
  "big_cash = Decimal 20000000000000000000000000010 0"


section \<open>Construction\<close>

lemma dless_minus_one: "dless (Decimal (- 1) 0) (Decimal_of_int 0)"
  by (simp add: dless_def aligned_def Decimal_of_int_def)

lemma not_dless_zero: "\<not> dless (Decimal 0 0) (Decimal_of_int 0)"
  by (simp add: dless_def aligned_def Decimal_of_int_def)

text \<open>
  C7. Constructing the simulator with a starting cash below zero raises NotEnoughCash (the
  spec's InvalidInitialCash); with any cash of zero or more, whatever else happens during
  construction, that exception is not raised.
\<close>

theorem init_rejects_negative_cash:
  "(dless c (Decimal_of_int 0) \<longrightarrow>
      PortfolioSimulator_init uniform clock logo_txt h c a = Inl NotEnoughCash) \<and>
   (\<not> dless c (Decimal_of_int 0) \<longrightarrow>
      PortfolioSimulator_init uniform clock logo_txt h c a \<noteq> Inl NotEnoughCash)"
  by (simp add: PortfolioSimulator_init_def Let_def split: prod.splits option.splits)

theorem init_rejects_negative_cash_witness:
  "dless (Decimal (- 1) 0) (Decimal_of_int 0) \<and>
   PortfolioSimulator_init script_uniform 0 (Some ''logo'') RealAssetPriceHistory
     (Decimal (- 1) 0) Map.empty = Inl NotEnoughCash \<and>
   \<not> dless (Decimal 0 0) (Decimal_of_int 0) \<and>
   PortfolioSimulator_init script_uniform 0 (Some ''logo'') RealAssetPriceHistory
     (Decimal 0 0) Map.empty \<noteq> Inl NotEnoughCash"
proof -
  note neg = init_rejects_negative_cash
    [of "Decimal (- 1) 0" script_uniform 0 "Some ''logo''" RealAssetPriceHistory Map.empty]
  note zero = init_rejects_negative_cash
    [of "Decimal 0 0" script_uniform 0 "Some ''logo''" RealAssetPriceHistory Map.empty]
  from neg zero dless_minus_one not_dless_zero show ?thesis by blast
qed

section \<open>The replayed history\<close>

lemma pull_real:
  "pull u clock k n RealAssetPriceHistory (RealGen i) =
     (take n (drop i real_table), RealAssetPriceHistory,
      RealGen (min (i + n) (max i (length real_table))))"
proof (induction n arbitrary: i k)
  case 0
  then show ?case by simp
next
  case (Suc n)
  show ?case
  proof (cases "i < length real_table")
    case True
    then have "take (Suc n) (drop i real_table) = real_table ! i # take n (drop (Suc i) real_table)"
      by (simp add: Cons_nth_drop_Suc [symmetric])
    with True Suc show ?thesis by (simp add: min_def max_def)
  next
    case False
    then show ?thesis by (simp add: min_def max_def)
  qed
qed

lemma islice_real:
  "islice u clock RealAssetPriceHistory n = (take n real_table, RealAssetPriceHistory)"
  by (simp add: islice_def iter_def pull_real)

lemma length_real_table: "length real_table = 8"
  by (simp add: real_table_def)

lemma value_snd:
  "snd (value s) =
     s\<lparr>assets := snd (asset_values_loop (current_prices s) dataclass_fields (assets s))\<rparr>"
  by (simp add: value_def asset_values_def case_prod_beta Let_def)

lemma init_real:
  assumes "\<not> dless c (Decimal_of_int 0)"
  shows "\<exists>s. PortfolioSimulator_init u t (Some txt) RealAssetPriceHistory c a = Inr s \<and>
             on_real_day 0 s"
  using assms
  by (cases "real_table ! 0")
    (simp add: PortfolioSimulator_init_def on_real_day_def case_prod_beta Let_def value_snd
      iter_def length_real_table)

lemma next_day_real:
  assumes "on_real_day i s"
  shows "if Suc i < length real_table
         then fst (next_day u t s) = None \<and> on_real_day (Suc i) (snd (next_day u t s))
         else fst (next_day u t s) = Some StopIteration"
  using assms
  by (cases "real_table ! Suc i") (simp add: next_day_def on_real_day_def)

lemma next_days_real:
  assumes "on_real_day 0 s" and "k < length real_table"
  shows "fst (next_days u clock k s) = None \<and> on_real_day k (snd (next_days u clock k s))"
  using assms(2)
proof (induction k)
  case 0
  with assms(1) show ?case by simp
next
  case (Suc k)
  then have ih: "fst (next_days u clock k s) = None" "on_real_day k (snd (next_days u clock k s))"
    by simp_all
  from next_day_real [OF ih(2), of u "clock k"] Suc.prems
  have "fst (next_day u (clock k) (snd (next_days u clock k s))) = None \<and>
        on_real_day (Suc k) (snd (next_day u (clock k) (snd (next_days u clock k s))))"
    by simp
  with ih(1) show ?case
    by (cases "next_days u clock k s") simp
qed

lemma next_days_real_end:
  assumes "on_real_day 0 s"
  shows "fst (next_days u clock (length real_table) s) = Some StopIteration"
proof -
  have len: "length real_table = Suc 7" by (simp add: length_real_table)
  have 7: "fst (next_days u clock 7 s) = None" "on_real_day 7 (snd (next_days u clock 7 s))"
    using next_days_real [OF assms, of 7 u clock] by (simp_all add: length_real_table)
  from next_day_real [OF 7(2), of u "clock 7"]
  have "fst (next_day u (clock 7) (snd (next_days u clock 7 s))) = Some StopIteration"
    by (simp add: length_real_table)
  with 7(1) show ?thesis
    by (cases "next_days u clock 7 s")
      (simp add: length_real_table next_days.simps(2) [of _ _ 7, simplified])
qed

text \<open>
  C5. The replayed history is finite and the same on every iteration: a second iteration of
  the same object yields the sequence the first did, the eight entries of the table. A
  simulator built on it can advance seven times, to the eighth day; the next advance
  raises StopIteration, the end-of-sequence signal.
\<close>

theorem real_history_replays_and_ends:
  "(let (xs, h1) = islice u clock RealAssetPriceHistory n;
        (ys, h2) = islice u' clock' h1 n
    in xs = ys \<and> xs = take n real_table) \<and>
   length real_table = 8 \<and>
   (\<not> dless c (Decimal_of_int 0) \<longrightarrow>
      (\<exists>s. PortfolioSimulator_init u t (Some txt) RealAssetPriceHistory c a = Inr s \<and>
           (\<forall>k<8. fst (next_days u clock k s) = None \<and>
                  (current_date (snd (next_days u clock k s)),
                   current_prices (snd (next_days u clock k s))) = real_table ! k) \<and>
           fst (next_days u clock 8 s) = Some StopIteration))"
proof (intro conjI impI)
  show "let (xs, h1) = islice u clock RealAssetPriceHistory n;
            (ys, h2) = islice u' clock' h1 n
        in xs = ys \<and> xs = take n real_table"
    by (simp add: islice_real)
  show "length real_table = 8" by (rule length_real_table)
  assume "\<not> dless c (Decimal_of_int 0)"
  from init_real [OF this] obtain s where
    s: "PortfolioSimulator_init u t (Some txt) RealAssetPriceHistory c a = Inr s" "on_real_day 0 s"
    by blast
  have "\<forall>k<8. fst (next_days u clock k s) = None \<and>
              (current_date (snd (next_days u clock k s)),
               current_prices (snd (next_days u clock k s))) = real_table ! k"
    using next_days_real [OF s(2), of _ u clock]
    by (simp add: length_real_table on_real_day_def)
  moreover have "fst (next_days u clock 8 s) = Some StopIteration"
    using next_days_real_end [OF s(2), of u clock] by (simp add: length_real_table)
  ultimately show "\<exists>s. PortfolioSimulator_init u t (Some txt) RealAssetPriceHistory c a = Inr s \<and>
           (\<forall>k<8. fst (next_days u clock k s) = None \<and>
                  (current_date (snd (next_days u clock k s)),
                   current_prices (snd (next_days u clock k s))) = real_table ! k) \<and>
           fst (next_days u clock 8 s) = Some StopIteration"
    using s(1) by blast
qed

lemma not_dless_default_cash: "\<not> dless default_cash (Decimal_of_int 0)"
  by (simp add: dless_def aligned_def Decimal_of_int_def default_cash_def)

lemma real_table_last:
  "real_table ! 7 = (738780, \<lparr>LKOH = Decimal 6566 0, SBER = Decimal 263 0\<rparr>)"
  by (simp add: real_table_def date_ymd_def days_before_year_def days_before_month_def
      days_in_month_def is_leap_def Decimal_of_int_def upt_conv_Cons)

theorem real_history_replays_and_ends_witness:
  "\<not> dless default_cash (Decimal_of_int 0) \<and>
   fst (islice script_uniform (\<lambda>k. 0) RealAssetPriceHistory 10) =
     fst (islice script_uniform (\<lambda>k. 0)
            (snd (islice script_uniform (\<lambda>k. 0) RealAssetPriceHistory 10)) 10) \<and>
   length (fst (islice script_uniform (\<lambda>k. 0) RealAssetPriceHistory 10)) = 8 \<and>
   (\<exists>s. PortfolioSimulator_init script_uniform 0 (Some ''logo'') RealAssetPriceHistory
           default_cash Map.empty = Inr s \<and>
        fst (next_days script_uniform (\<lambda>k. 0) 7 s) = None \<and>
        current_date (snd (next_days script_uniform (\<lambda>k. 0) 7 s)) = 738780 \<and>
        current_prices (snd (next_days script_uniform (\<lambda>k. 0) 7 s))
          = \<lparr>LKOH = Decimal 6566 0, SBER = Decimal 263 0\<rparr> \<and>
        fst (next_days script_uniform (\<lambda>k. 0) 8 s) = Some StopIteration)"
proof -
  note t = real_history_replays_and_ends
    [of script_uniform "\<lambda>k. 0" 10 script_uniform "\<lambda>k. 0" default_cash 0 "''logo''" Map.empty]
  from t have seq: "fst (islice script_uniform (\<lambda>k. 0) RealAssetPriceHistory 10) =
     fst (islice script_uniform (\<lambda>k. 0)
            (snd (islice script_uniform (\<lambda>k. 0) RealAssetPriceHistory 10)) 10)"
    and len: "length (fst (islice script_uniform (\<lambda>k. 0) RealAssetPriceHistory 10)) = 8"
    by (auto simp: Let_def split: prod.splits)
  from t not_dless_default_cash obtain s where
    s: "PortfolioSimulator_init script_uniform 0 (Some ''logo'') RealAssetPriceHistory
           default_cash Map.empty = Inr s"
       "\<forall>k<8. fst (next_days script_uniform (\<lambda>k. 0) k s) = None \<and>
                  (current_date (snd (next_days script_uniform (\<lambda>k. 0) k s)),
                   current_prices (snd (next_days script_uniform (\<lambda>k. 0) k s))) = real_table ! k"
       "fst (next_days script_uniform (\<lambda>k. 0) 8 s) = Some StopIteration"
    by blast
  from s(2) have "fst (next_days script_uniform (\<lambda>k. 0) 7 s) = None \<and>
                  (current_date (snd (next_days script_uniform (\<lambda>k. 0) 7 s)),
                   current_prices (snd (next_days script_uniform (\<lambda>k. 0) 7 s))) = real_table ! 7"
    by simp
  with real_table_last s(1) s(3) seq len not_dless_default_cash show ?thesis
    by auto
qed

section \<open>The stationary history\<close>

lemma pull_chill:
  "pull u clock k n ChillAssetPriceHistory (ChillGen t d) =
     (map (\<lambda>j. ((case t of None \<Rightarrow> clock k | Some x \<Rightarrow> x) + int (d + j), AssetPrice_init [])) [0..<n],
      ChillAssetPriceHistory,
      ChillGen (if n = 0 then t else Some (case t of None \<Rightarrow> clock k | Some x \<Rightarrow> x)) (d + n))"
proof (induction n arbitrary: t d k)
  case 0
  then show ?case by simp
next
  case (Suc n)
  have "[0..<Suc n] = 0 # map Suc [0..<n]"
    by (simp add: upt_conv_Cons map_Suc_upt del: upt_Suc)
  then show ?case
    by (simp add: Suc Let_def comp_def del: upt_Suc)
qed

lemma islice_chill:
  "islice u clock ChillAssetPriceHistory n =
     (map (\<lambda>j. (clock 0 + int j, AssetPrice_init [])) [0..<n], ChillAssetPriceHistory)"
  by (simp add: islice_def iter_def pull_chill)

text \<open>
  C8. The stationary history: every snapshot it yields is the day-0 snapshot, the default
  prices; the dates start at the wall-clock date of the first pull and go up by exactly one
  day from each element to the next.
\<close>

theorem chill_history_constant:
  "let xs = fst (islice u clock ChillAssetPriceHistory n)
   in length xs = n \<and>
      (\<forall>k<n. snd (xs ! k) = snd (xs ! 0)) \<and>
      (\<forall>k. Suc k < n \<longrightarrow> fst (xs ! Suc k) = fst (xs ! k) + 1) \<and>
      (0 < n \<longrightarrow> xs ! 0 = (clock 0, AssetPrice_init []))"
proof -
  define xs where "xs = fst (islice u clock ChillAssetPriceHistory n)"
  have xs: "xs = map (\<lambda>j. (clock 0 + int j, AssetPrice_init [])) [0..<n]"
    by (simp add: xs_def islice_chill)
  have nth: "xs ! k = (clock 0 + int k, AssetPrice_init [])" if "k < n" for k
    using that by (simp add: xs)
  have "length xs = n" by (simp add: xs)
  moreover have "\<forall>k<n. snd (xs ! k) = snd (xs ! 0)"
    using nth by (metis less_nat_zero_code not_gr_zero snd_conv)
  moreover have "\<forall>k. Suc k < n \<longrightarrow> fst (xs ! Suc k) = fst (xs ! k) + 1"
    using nth by (simp add: Suc_lessD)
  moreover have "0 < n \<longrightarrow> xs ! 0 = (clock 0, AssetPrice_init [])"
    using nth [of 0] by simp
  ultimately show ?thesis
    unfolding xs_def Let_def by blast
qed

theorem chill_history_constant_witness:
  "length (fst (islice script_uniform (\<lambda>k. 739000 + int k) ChillAssetPriceHistory 3)) = 3 \<and>
   snd (fst (islice script_uniform (\<lambda>k. 739000 + int k) ChillAssetPriceHistory 3) ! 2) =
     snd (fst (islice script_uniform (\<lambda>k. 739000 + int k) ChillAssetPriceHistory 3) ! 0) \<and>
   fst (fst (islice script_uniform (\<lambda>k. 739000 + int k) ChillAssetPriceHistory 3) ! 2) =
     fst (fst (islice script_uniform (\<lambda>k. 739000 + int k) ChillAssetPriceHistory 3) ! 1) + 1 \<and>
   fst (islice script_uniform (\<lambda>k. 739000 + int k) ChillAssetPriceHistory 3) ! 0 =
     (739000, \<lparr>LKOH = Decimal 5896 0, SBER = Decimal 250 0\<rparr>)"
proof -
  define xs where "xs = fst (islice script_uniform (\<lambda>k. 739000 + int k) ChillAssetPriceHistory 3)"
  have init: "AssetPrice_init [] = \<lparr>LKOH = Decimal 5896 0, SBER = Decimal 250 0\<rparr>"
    by (simp add: AssetPrice_init_def Decimal_of_int_def)
  have all: "length xs = 3 \<and> (\<forall>k<3. snd (xs ! k) = snd (xs ! 0)) \<and>
      (\<forall>k. Suc k < 3 \<longrightarrow> fst (xs ! Suc k) = fst (xs ! k) + 1) \<and>
      xs ! 0 = (739000, AssetPrice_init [])"
    using chill_history_constant [of script_uniform "\<lambda>k. 739000 + int k" 3]
    unfolding xs_def Let_def by simp
  then have same: "snd (xs ! 2) = snd (xs ! 0)" by simp
  from all have "Suc 1 < 3 \<longrightarrow> fst (xs ! Suc 1) = fst (xs ! 1) + 1" by blast
  then have step: "fst (xs ! 2) = fst (xs ! 1) + 1" by (simp add: numeral_2_eq_2)
  from all same step show ?thesis
    unfolding xs_def init by simp
qed

section \<open>The randomized history\<close>

lemma skip_draws_0 [simp]: "skip_draws u pm 0 r = r"
  by (simp add: skip_draws_def)

lemma skip_draws_add: "skip_draws u pm (m + n) r = skip_draws u pm m (skip_draws u pm n r)"
  by (simp add: skip_draws_def funpow_add)

lemma draw_skip: "draw u pm (skip_draws u pm n r) i = draw u pm r (i + n)"
  by (simp add: draw_def skip_draws_add)

lemma chaos_kwargs_fields:
  "chaos_kwargs u pm (AssetPrice_init []) dataclass_fields r = (kwargs, r') \<Longrightarrow>
     r' = skip_draws u pm 2 r \<and> AssetPrice_init kwargs = chaos_snapshot u pm r 1"
  by (auto simp: dataclass_fields_def AssetPrice_init_def chaos_snapshot_def scaled_def draw_def
      skip_draws_def numeral_2_eq_2 Let_def split: prod.splits if_splits)

lemma gen_next_chaos:
  "gen_next u t (ChaosAssetPriceHistory pm sd r) (ChaosGen (Some today) (Suc d)) =
     (Some (today + int (Suc d), chaos_snapshot u pm r 1),
      ChaosAssetPriceHistory pm sd (skip_draws u pm 2 r), ChaosGen (Some today) (Suc (Suc d)))"
  using chaos_kwargs_fields [of u pm r]
  by (cases "chaos_kwargs u pm (AssetPrice_init []) dataclass_fields r") (simp add: Let_def)

lemma pull_chaos:
  "pull u clock k n (ChaosAssetPriceHistory pm sd r) (ChaosGen (Some today) (Suc d)) =
     (map (\<lambda>j. (today + int (Suc d + j), chaos_snapshot u pm r (Suc j))) [0..<n],
      ChaosAssetPriceHistory pm sd (skip_draws u pm (2 * n) r),
      ChaosGen (Some today) (Suc d + n))"
proof (induction n arbitrary: r d k)
  case 0
  then show ?case by simp
next
  case (Suc n)
  have upt: "[0..<Suc n] = 0 # map Suc [0..<n]"
    by (simp add: upt_conv_Cons map_Suc_upt del: upt_Suc)
  have skip: "skip_draws u pm (2 * n) (skip_draws u pm 2 r) = skip_draws u pm (2 * Suc n) r"
    by (simp add: skip_draws_add [symmetric])
  have snap: "chaos_snapshot u pm (skip_draws u pm 2 r) (Suc j) = chaos_snapshot u pm r (Suc (Suc j))"
    for j
    by (simp add: chaos_snapshot_def draw_skip)
  have first: "chaos_snapshot u pm r 1 = chaos_snapshot u pm r (Suc 0)" by simp
  show ?case
    by (simp add: upt gen_next_chaos Suc.IH skip snap comp_def del: upt_Suc gen_next.simps(1))
qed

lemma islice_chaos:
  "islice u clock (ChaosAssetPriceHistory pm sd r) (Suc n) =
     ((clock 0, AssetPrice_init []) #
        map (\<lambda>j. (clock 0 + int (Suc j), chaos_snapshot u pm r (Suc j))) [0..<n],
      ChaosAssetPriceHistory pm sd (skip_draws u pm (2 * n) r))"
  by (simp add: islice_def iter_def Let_def pull_chaos comp_def)

lemma islice_chaos_nth:
  assumes "k < n"
  shows "fst (islice u clock (ChaosAssetPriceHistory pm sd r) n) ! k =
           (clock 0 + int k, if k = 0 then AssetPrice_init [] else chaos_snapshot u pm r k)"
proof -
  from assms obtain n' where n: "n = Suc n'" by (cases n) auto
  show ?thesis
  proof (cases k)
    case 0
    then show ?thesis by (simp add: n islice_chaos)
  next
    case (Suc k')
    with assms n have "k' < n'" by simp
    with Suc show ?thesis by (simp add: n islice_chaos)
  qed
qed

lemma islice_chaos_length: "length (fst (islice u clock (ChaosAssetPriceHistory pm sd r) n)) = n"
  by (cases n) (simp add: islice_def, simp add: islice_chaos)


lemma Chaos_init:
  "ChaosAssetPriceHistory_init seed_rng pm sd e = ChaosAssetPriceHistory pm sd (seed_rng sd)"
  by (simp add: ChaosAssetPriceHistory_init_def)

text \<open>
  C6. Two randomized histories constructed independently (whatever state \<^verbatim>\<open>Random()\<close> had
  before the seeding) with the same seed and the same multiplier range yield the same
  snapshots for the first \<open>n\<close> days, and the same dates too when the first pull of both
  happens on the same wall-clock day.
\<close>

theorem chaos_same_seed_same_path:
  "let xs = fst (islice u clock1 (ChaosAssetPriceHistory_init seed_rng pm sd e1) n);
       ys = fst (islice u clock2 (ChaosAssetPriceHistory_init seed_rng pm sd e2) n)
   in length xs = n \<and> length ys = n \<and> map snd xs = map snd ys \<and>
      (clock1 0 = clock2 0 \<longrightarrow> xs = ys)"
proof -
  define xs where "xs = fst (islice u clock1 (ChaosAssetPriceHistory pm sd (seed_rng sd)) n)"
  define ys where "ys = fst (islice u clock2 (ChaosAssetPriceHistory pm sd (seed_rng sd)) n)"
  have len: "length xs = n" "length ys = n"
    by (simp_all add: xs_def ys_def islice_chaos_length)
  have "snd (xs ! k) = snd (ys ! k)" if "k < n" for k
    using that by (simp add: xs_def ys_def islice_chaos_nth)
  with len have snd: "map snd xs = map snd ys"
    by (simp add: list_eq_iff_nth_eq)
  have "xs = ys" if "clock1 0 = clock2 0"
    using that len by (simp add: list_eq_iff_nth_eq xs_def ys_def islice_chaos_nth)
  with len snd show ?thesis
    unfolding Chaos_init xs_def ys_def Let_def by blast
qed

lemma islice_chaos42:
  "fst (islice script_uniform (same_day 739000) chaos42 4) =
     [(739000, \<lparr>LKOH = Decimal 5896 0, SBER = Decimal 250 0\<rparr>),
      (739001, \<lparr>LKOH = Decimal 6718060403707681931706474643 (- 24),
                SBER = Decimal 1312526888056667340176630887 (- 25)\<rparr>),
      (739002, \<lparr>LKOH = Decimal 4569572861104327143877412709 (- 24),
                SBER = Decimal 1808026845372056878868960439 (- 25)\<rparr>),
      (739003, \<lparr>LKOH = Decimal 7290234278711017109841918682 (- 24),
                SBER = Decimal 2941748718557278263752152725 (- 25)\<rparr>)]"
  by code_simp


theorem chaos_same_seed_same_path_witness:
  "same_day 739000 0 = running_clock 739000 0 \<and>
   fst (islice script_uniform (same_day 739000)
          (ChaosAssetPriceHistory_init (script_seed seed42_draws) default_price_multiplier
             default_seed []) 3) =
   fst (islice script_uniform (running_clock 739000)
          (ChaosAssetPriceHistory_init (script_seed seed42_draws) default_price_multiplier
             default_seed [Float 1 0]) 3) \<and>
   length (fst (islice script_uniform (same_day 739000)
          (ChaosAssetPriceHistory_init (script_seed seed42_draws) default_price_multiplier
             default_seed []) 3)) = 3"
proof -
  have clock: "same_day 739000 0 = running_clock 739000 0"
    by (simp add: same_day_def running_clock_def)
  from chaos_same_seed_same_path
    [of script_uniform "same_day 739000" "script_seed seed42_draws" default_price_multiplier
      default_seed "[]" 3 "running_clock 739000" "[Float 1 0]"] clock
  show ?thesis
    unfolding Let_def by blast
qed

lemma chaos42_not_a_walk:
  "dmul (Decimal_of_int 5896) (Decimal_from_float (Float 3490421749408375 52)) =
     Decimal 4569572861104327143877412709 (- 24)"
  "\<not> deq (Decimal 4569572861104327143877412709 (- 24))
          (dmul (Decimal 6718060403707681931706474643 (- 24))
                (Decimal_from_float (Float 3490421749408375 52)))"
  "dless (dmul (Decimal 1808026845372056878868960439 (- 25)) (Decimal_from_float (Float 3 1)))
         (Decimal 2941748718557278263752152725 (- 25))"
  by code_simp+

text \<open>
  C1 on \<^verbatim>\<open>ChaosAssetPriceHistory()\<close>, default range and seed, first four days. What
  \<^verbatim>\<open>__iter__\<close> multiplies is \<^verbatim>\<open>base_asset_price\<close>, which stays the default snapshot, so a
  day's price is the default price times that day's multiplier: the LKOH price of day 2 is
  5896 times the third draw, and it is not the price of day 1 times that draw, as the claim
  has it. The SBER price of day 3 is more than 1.5 times that of day 2: a rise
  within one day that no multiplier of the range gives.
\<close>

theorem chaos_price_not_previous_times_draw:
  "LKOH (snd (fst (islice script_uniform (same_day 739000) chaos42 4) ! 2)) =
     dmul (Decimal_of_int 5896) (Decimal_from_float (seed42_draws ! 2)) \<and>
   \<not> deq (LKOH (snd (fst (islice script_uniform (same_day 739000) chaos42 4) ! 2)))
          (dmul (LKOH (snd (fst (islice script_uniform (same_day 739000) chaos42 4) ! 1)))
                (Decimal_from_float (seed42_draws ! 2))) \<and>
   dless (dmul (SBER (snd (fst (islice script_uniform (same_day 739000) chaos42 4) ! 2)))
               (Decimal_from_float (snd default_price_multiplier)))
         (SBER (snd (fst (islice script_uniform (same_day 739000) chaos42 4) ! 3)))"
  unfolding islice_chaos42
  using chaos42_not_a_walk
  by (simp add: seed42_draws_def default_price_multiplier_def)







section \<open>Buying and selling\<close>

lemma round_half_even_nonneg: "0 \<le> m \<Longrightarrow> 0 \<le> round_half_even m d"
  by (simp add: round_half_even_def Let_def pos_imp_zdiv_nonneg_iff)

lemma Decimal_fix_nonneg: "0 \<le> coeff x \<Longrightarrow> 0 \<le> coeff (Decimal_fix x)"
  using round_half_even_nonneg [of "\<bar>coeff x\<bar>"]
  by (auto simp: Decimal_fix_def Let_def pos_imp_zdiv_nonneg_iff sgn_if
      intro!: mult_nonneg_nonneg)

lemma aligned_nonneg: "0 \<le> coeff x \<Longrightarrow> 0 \<le> aligned x e"
  by (simp add: aligned_def)

lemma dmul_nonneg: "0 \<le> coeff x \<Longrightarrow> 0 \<le> coeff y \<Longrightarrow> 0 \<le> coeff (dmul x y)"
  by (simp add: dmul_def Decimal_fix_nonneg)

lemma dadd_nonneg: "0 \<le> coeff x \<Longrightarrow> 0 \<le> coeff y \<Longrightarrow> 0 \<le> coeff (dadd x y)"
  by (simp add: dadd_def Let_def Decimal_fix_nonneg aligned_nonneg)

lemma dsub_nonneg: "\<not> dless x y \<Longrightarrow> 0 \<le> coeff (dsub x y)"
  by (simp add: dsub_def dadd_def dless_def dneg_def Let_def Decimal_fix_nonneg aligned_def)

lemma getattr_cases:
  "getattr p a =
     (if a = ''LKOH'' then Field (LKOH p) else if a = ''SBER'' then Field (SBER p)
      else if a \<in> set object_attributes then NotAPrice else AttributeError)"
  by (simp add: getattr_def dataclass_fields_def)

lemma getattr_Field_nonneg:
  "prices_nonneg p \<Longrightarrow> getattr p a = Field price \<Longrightarrow> 0 \<le> coeff price"
  by (auto simp: getattr_cases prices_nonneg_def split: if_splits)

lemma buy_solvent:
  assumes "solvent s" "0 \<le> amount"
  shows "solvent (snd (buy s asset amount))"
  using assms
  by (auto simp: buy_def solvent_def defaultdict_getitem_def Let_def dsub_nonneg
      split: attribute.splits option.splits)

lemma sell_solvent:
  assumes "solvent s" "prices_nonneg (current_prices s)" "0 \<le> amount"
  shows "solvent (snd (sell s asset amount))"
  using assms
  by (auto simp: sell_def solvent_def Let_def dadd_nonneg dmul_nonneg Decimal_of_int_def
      dest: getattr_Field_nonneg split: attribute.splits option.splits)

lemma buy_failure_unchanged: "fst (buy s asset amount) \<noteq> None \<Longrightarrow> snd (buy s asset amount) = s"
  by (auto simp: buy_def Let_def split: attribute.splits prod.splits if_splits)

lemma sell_failure_unchanged: "fst (sell s asset amount) \<noteq> None \<Longrightarrow> snd (sell s asset amount) = s"
  by (auto simp: sell_def Let_def split: attribute.splits option.splits if_splits)

lemma asset_values_loop_keeps:
  "asset_values_loop p fs m = (vs, m') \<Longrightarrow>
     m' a = (if a \<in> fst ` set fs \<and> m a = None then Some 0 else m a)"
proof (induction fs arbitrary: m vs m')
  case Nil
  then show ?case by simp
next
  case (Cons f fs)
  obtain name get where f: "f = (name, get)" by (cases f)
  obtain q m1 where g: "defaultdict_getitem m name = (q, m1)" by (cases "defaultdict_getitem m name")
  obtain rest m2 where l: "asset_values_loop p fs m1 = (rest, m2)"
    by (cases "asset_values_loop p fs m1")
  from Cons.prems f g l have m': "m' = m2" by simp
  from g have m1: "m1 = (case m name of None \<Rightarrow> m(name \<mapsto> 0) | Some v \<Rightarrow> m)"
    by (auto simp: defaultdict_getitem_def split: option.splits)
  from Cons.IH [OF l] have "m2 a = (if a \<in> fst ` set fs \<and> m1 a = None then Some 0 else m1 a)" .
  with m' m1 f show ?case
    by (auto split: option.splits)
qed

lemma value_assets:
  "assets (snd (value s)) a =
     (if a \<in> fst ` set dataclass_fields \<and> assets s a = None then Some 0 else assets s a)"
  using asset_values_loop_keeps
    [of "current_prices s" dataclass_fields "assets s"
      "fst (asset_values_loop (current_prices s) dataclass_fields (assets s))"
      "snd (asset_values_loop (current_prices s) dataclass_fields (assets s))" a]
  by (simp add: value_def asset_values_def case_prod_beta Let_def)

lemma value_other_fields:
  "cash (snd (value s)) = cash s" "current_prices (snd (value s)) = current_prices s"
  "history (snd (value s)) = history s" "days (snd (value s)) = days s"
  "current_date (snd (value s)) = current_date s"
  by (simp_all add: value_def asset_values_def case_prod_beta Let_def)

lemma value_solvent: "solvent s \<Longrightarrow> solvent (snd (value s))"
  by (auto simp: solvent_def value_assets value_other_fields split: if_splits)

lemma next_day_solvent: "solvent s \<Longrightarrow> solvent (snd (next_day u t s))"
  by (auto simp: solvent_def next_day_def split: prod.splits option.splits)


lemma dless_zero_iff: "dless c (Decimal_of_int 0) \<longleftrightarrow> coeff c < 0"
  by (simp add: dless_def aligned_def Decimal_of_int_def Let_def mult_less_0_iff)

lemma first_pull_prices:
  "gen_next u t h (iter h) = (Some (d, p), h', g) \<Longrightarrow> prices_nonneg p"
  by (cases h)
    (auto simp: iter_def prices_nonneg_def AssetPrice_init_def Decimal_of_int_def real_table_def
      Let_def split: if_splits)

lemma value_result:
  assumes "value s = (v, s')"
  shows "cash s' = cash s" and "current_prices s' = current_prices s"
    and "assets s' a =
      (if a \<in> fst ` set dataclass_fields \<and> assets s a = None then Some 0 else assets s a)"
  using value_other_fields(1,2) [of s] value_assets [of s a] assms by simp_all

lemma init_solvent:
  assumes "PortfolioSimulator_init u t logo_txt h c a = Inr s"
    and "\<forall>k q. a k = Some q \<longrightarrow> 0 \<le> q"
  shows "solvent s \<and> prices_nonneg (current_prices s)"
proof (cases "gen_next u t h (iter h)")
  case (fields x h' g)
  with assms(1) obtain d p where x: "x = Some (d, p)"
    by (cases x) (auto simp: PortfolioSimulator_init_def split: if_splits)
  define s1 where "s1 = \<lparr> history = h', cash = c, assets = a, days = g, current_date = d,
      current_prices = p, initial_value = Decimal_of_int 0, logo = [] \<rparr>"
  obtain v s2 where v: "value s1 = (v, s2)" by (cases "value s1")
  from assms(1) fields x v have c: "0 \<le> coeff c" and "\<exists>lg. s = s2\<lparr>initial_value := v, logo := lg\<rparr>"
    by (auto simp: PortfolioSimulator_init_def dless_zero_iff s1_def Let_def
        split: if_splits option.splits)
  then obtain lg where s: "s = s2\<lparr>initial_value := v, logo := lg\<rparr>" by blast
  from fields x have "prices_nonneg p" by (simp add: first_pull_prices)
  with s c assms(2) value_result [OF v] show ?thesis
    by (auto simp: solvent_def s1_def split: if_splits)
qed

text \<open>
  The checks that \<^verbatim>\<open>__post_init__\<close>, \<^verbatim>\<open>buy\<close> and \<^verbatim>\<open>sell\<close> make, and what they give where
  the quantity is zero or more. Construction leaves cash and holdings zero or more (given
  such initial holdings); advancing a day and reading the value keep them so; and in a
  state with non-negative prices a buy or sell of a quantity of zero or more keeps them so.
  A call that raises leaves the whole simulator as it was; a buy whose cost exceeds the cash
  raises NotEnoughCash, a sell of more than the recorded quantity raises NotEnoughAsset.
\<close>

lemma trades_keep_solvent:
  "(PortfolioSimulator_init u t logo_txt h c a = Inr s0 \<and> (\<forall>k q. a k = Some q \<longrightarrow> 0 \<le> q) \<longrightarrow>
      solvent s0 \<and> prices_nonneg (current_prices s0)) \<and>
   (solvent s \<longrightarrow> solvent (snd (next_day u t s)) \<and> solvent (snd (value s))) \<and>
   (solvent s \<and> prices_nonneg (current_prices s) \<and> 0 \<le> amount \<longrightarrow>
      solvent (snd (buy s asset amount)) \<and> solvent (snd (sell s asset amount)) \<and>
      (fst (buy s asset amount) \<noteq> None \<longrightarrow> snd (buy s asset amount) = s) \<and>
      (fst (sell s asset amount) \<noteq> None \<longrightarrow> snd (sell s asset amount) = s) \<and>
      (\<forall>price. getattr (current_prices s) asset = Field price \<and>
               dless (cash s) (dmul price (Decimal_of_int amount)) \<longrightarrow>
               buy s asset amount = (Some NotEnoughCash, s)) \<and>
      (\<forall>q. assets s asset = Some q \<and> q < amount \<longrightarrow>
           sell s asset amount = (Some NotEnoughAsset, s)))"
proof (intro conjI impI allI)
  assume "PortfolioSimulator_init u t logo_txt h c a = Inr s0 \<and> (\<forall>k q. a k = Some q \<longrightarrow> 0 \<le> q)"
  then show "solvent s0" "prices_nonneg (current_prices s0)"
    using init_solvent [of u t logo_txt h c a s0] by simp_all
next
  assume "solvent s"
  then show "solvent (snd (next_day u t s))" "solvent (snd (value s))"
    by (simp_all add: next_day_solvent value_solvent)
next
  assume "solvent s \<and> prices_nonneg (current_prices s) \<and> 0 \<le> amount"
  then show "solvent (snd (buy s asset amount))" "solvent (snd (sell s asset amount))"
    by (simp_all add: buy_solvent sell_solvent)
next
  assume "fst (buy s asset amount) \<noteq> None"
  then show "snd (buy s asset amount) = s" by (rule buy_failure_unchanged)
next
  assume "fst (sell s asset amount) \<noteq> None"
  then show "snd (sell s asset amount) = s" by (rule sell_failure_unchanged)
next
  fix price
  assume "getattr (current_prices s) asset = Field price \<and>
          dless (cash s) (dmul price (Decimal_of_int amount))"
  then show "buy s asset amount = (Some NotEnoughCash, s)"
    by (simp add: buy_def Let_def)
next
  fix q
  assume "assets s asset = Some q \<and> q < amount"
  then show "sell s asset amount = (Some NotEnoughAsset, s)"
    by (simp add: sell_def)
qed

lemma init_real_start:
  "0 \<le> coeff c \<Longrightarrow>
   PortfolioSimulator_init script_uniform t (Some ''logo'') RealAssetPriceHistory c Map.empty
     = Inr (real_start c)"
  by (simp add: PortfolioSimulator_init_def dless_zero_iff iter_def real_table_def
      value_def asset_values_def dataclass_fields_def defaultdict_getitem_def sum_decimal_def
      real_start_def Let_def)

lemma negative_trades:
  "fst (buy (real_start default_cash) ''SBER'' 1000) = Some NotEnoughCash"
  "fst (sell (real_start default_cash) ''SBER'' 1) = Some NotEnoughAsset"
  "fst (sell (real_start default_cash) ''SBER'' (- 1000)) = None"
  "cash (snd (sell (real_start default_cash) ''SBER'' (- 1000))) = Decimal (- 155000) 0"
  "dless (cash (snd (sell (real_start default_cash) ''SBER'' (- 1000)))) (Decimal_of_int 0)"
  "fst (buy (real_start default_cash) ''SBER'' (- 1)) = None"
  "assets (snd (buy (real_start default_cash) ''SBER'' (- 1))) ''SBER'' = Some (- 1)"
  by code_simp+

lemma refused_trades:
  "buy (real_start default_cash) ''SBER'' 1000 = (Some NotEnoughCash, real_start default_cash)"
  "sell (real_start default_cash) ''SBER'' 1 = (Some NotEnoughAsset, real_start default_cash)"
  using negative_trades(1,2)
    buy_failure_unchanged [of "real_start default_cash" "''SBER''" 1000]
    sell_failure_unchanged [of "real_start default_cash" "''SBER''" 1]
  by (simp_all add: prod_eq_iff)

text \<open>
  C2 on a freshly constructed simulator (replayed history, cash 100000, SBER at 255, nothing
  held) with negative quantities, which neither \<^verbatim>\<open>buy\<close> nor \<^verbatim>\<open>sell\<close> looks at. Buying
  1000 SBER is refused for lack of cash and selling one for lack of holdings, as the claim
  says. But \<^verbatim>\<open>sell('SBER', -1000)\<close> passes the holdings check (0 is not below -1000) and
  succeeds: it takes 255000 from the cash, as the refused purchase would have, and leaves it
  at -155000, below zero. And \<^verbatim>\<open>buy('SBER', -1)\<close> passes the cash check (the cost is -255)
  and succeeds: it leaves a holding of -1, as the refused sale would have.
\<close>

theorem negative_quantity_breaks_solvency:
  "PortfolioSimulator_init script_uniform 738773 (Some ''logo'') RealAssetPriceHistory
      default_cash Map.empty = Inr (real_start default_cash) \<and>
   buy (real_start default_cash) ''SBER'' 1000 = (Some NotEnoughCash, real_start default_cash) \<and>
   sell (real_start default_cash) ''SBER'' 1 = (Some NotEnoughAsset, real_start default_cash) \<and>
   fst (sell (real_start default_cash) ''SBER'' (- 1000)) = None \<and>
   cash (snd (sell (real_start default_cash) ''SBER'' (- 1000))) = Decimal (- 155000) 0 \<and>
   dless (cash (snd (sell (real_start default_cash) ''SBER'' (- 1000)))) (Decimal_of_int 0) \<and>
   fst (buy (real_start default_cash) ''SBER'' (- 1)) = None \<and>
   assets (snd (buy (real_start default_cash) ''SBER'' (- 1))) ''SBER'' = Some (- 1)"
  using init_real_start [of default_cash 738773] negative_trades(3-7) refused_trades
  by (simp add: default_cash_def Decimal_of_int_def)

section \<open>Asset names\<close>

lemma field_names_eq: "field_names = {''LKOH'', ''SBER''}"
  by (auto simp: field_names_def dataclass_fields_def)

text \<open>
  C4 at the name of an attribute that every dataclass instance has: \<^verbatim>\<open>__doc__\<close> is not an
  asset identifier of the snapshot, yet \<^verbatim>\<open>getattr\<close> finds it, no AttributeError is raised,
  and the buy ends in a TypeError (the docstring times the quantity is compared with the
  cash) where the claim has WrongAssetName. The simulator is left as it was.
\<close>

theorem buy_attribute_name_raises_TypeError:
  "''__doc__'' \<notin> field_names \<and> buy s ''__doc__'' amount = (Some TypeError, s)"
  by (simp add: field_names_eq buy_def getattr_cases object_attributes_def)

lemma getattr_Field_iff: "(\<exists>price. getattr p a = Field price) \<longleftrightarrow> a \<in> field_names"
  by (auto simp: getattr_cases field_names_eq)

lemma getattr_AttributeError_iff:
  "getattr p a = AttributeError \<longleftrightarrow> a \<notin> field_names \<and> a \<notin> set object_attributes"
  by (auto simp: getattr_cases field_names_eq object_attributes_def)

lemma buy_behaviour:
  "buy s asset amount =
     (case getattr (current_prices s) asset of
        AttributeError \<Rightarrow> (Some WrongAssetName, s)
      | NotAPrice \<Rightarrow> (Some TypeError, s)
      | Field price \<Rightarrow>
          if dless (cash s) (dmul price (Decimal_of_int amount)) then (Some NotEnoughCash, s)
          else (None, s\<lparr>cash := dsub (cash s) (dmul price (Decimal_of_int amount)),
                        assets := (assets s)(asset \<mapsto> holding s asset + amount)\<rparr>))"
  by (auto simp: buy_def holding_def defaultdict_getitem_def Let_def
      split: attribute.splits option.splits)

lemma asset_values_assets:
  "assets (snd (asset_values s)) a =
     (if a \<in> field_names \<and> assets s a = None then Some 0 else assets s a)"
  using asset_values_loop_keeps
    [of "current_prices s" dataclass_fields "assets s"
      "fst (asset_values_loop (current_prices s) dataclass_fields (assets s))"
      "snd (asset_values_loop (current_prices s) dataclass_fields (assets s))" a]
  by (simp add: asset_values_def case_prod_beta Let_def field_names_def)

lemma dom_asset_values: "dom (assets (snd (asset_values s))) = dom (assets s) \<union> field_names"
  by (auto simp: asset_values_assets dom_def split: if_splits)

lemma dom_value: "dom (assets (snd (value s))) = dom (assets s) \<union> field_names"
  by (auto simp: value_assets field_names_def dom_def split: if_splits)

lemma profit_snd: "snd (profit s) = snd (value s)"
  by (simp add: profit_def case_prod_beta)

lemma init_assets:
  assumes "PortfolioSimulator_init u t logo_txt h c a0 = Inr s"
  shows "assets s a = (if a \<in> field_names \<and> a0 a = None then Some 0 else a0 a)"
proof (cases "gen_next u t h (iter h)")
  case (fields x h' g)
  with assms obtain d p where x: "x = Some (d, p)"
    by (cases x) (auto simp: PortfolioSimulator_init_def split: if_splits)
  define s1 where "s1 = \<lparr> history = h', cash = c, assets = a0, days = g, current_date = d,
      current_prices = p, initial_value = Decimal_of_int 0, logo = [] \<rparr>"
  obtain v s2 where v: "value s1 = (v, s2)" by (cases "value s1")
  from assms fields x v have "\<exists>lg. s = s2\<lparr>initial_value := v, logo := lg\<rparr>"
    by (auto simp: PortfolioSimulator_init_def s1_def Let_def split: if_splits option.splits)
  then obtain lg where s: "s = s2\<lparr>initial_value := v, logo := lg\<rparr>" by blast
  with value_result(3) [OF v, of a] show ?thesis
    by (simp add: s1_def field_names_def)
qed

lemma reachable_holdings:
  "reachable u T s \<Longrightarrow> field_names \<subseteq> dom (assets s) \<and> (\<forall>a. a \<notin> T \<longrightarrow> holding s a = 0)"
proof (induction rule: reachable.induct)
  case (constructed clock logo_txt h c a s)
  have "assets s k = (if k \<in> field_names \<and> a k = None then Some 0 else a k)" for k
    by (rule init_assets [OF constructed])
  then show ?case
    by (auto simp: holding_def dom_def split: option.splits)
next
  case (bought T s asset amount)
  then show ?case
    by (auto simp: buy_behaviour holding_def dom_def split: attribute.splits option.splits)
next
  case (sold T s amount asset)
  show ?case
  proof (cases "fst (sell s asset amount) = None")
    case False
    then have "snd (sell s asset amount) = s" by (simp add: sell_failure_unchanged)
    with sold show ?thesis by simp
  next
    case True
    then obtain k where k: "assets s asset = Some k" "amount \<le> k"
      and s': "assets (snd (sell s asset amount)) = (assets s)(asset \<mapsto> k - amount)"
      by (auto simp: sell_def Let_def split: option.splits if_splits attribute.splits)
    have "k - amount = 0" if "asset \<notin> T"
    proof -
      from sold that have "holding s asset = 0" by simp
      with k have "k = 0" by (simp add: holding_def)
      with k sold show ?thesis by simp
    qed
    with sold s' show ?thesis
      by (auto simp: holding_def dom_def split: option.splits)
  qed
next
  case (sold_negative T s amount asset)
  then show ?case
    by (auto simp: sell_def holding_def dom_def Let_def
        split: attribute.splits option.splits if_splits)
next
  case (advanced T s clock)
  then show ?case
    by (auto simp: next_day_def holding_def split: prod.splits option.splits)
next
  case (listed T s)
  then show ?case
    by (auto simp: asset_values_assets holding_def dom_def split: option.splits)
next
  case (valued T s)
  then show ?case
    by (auto simp: value_assets field_names_def holding_def dom_def split: option.splits)
next
  case (profited T s)
  then show ?case
    by (auto simp: profit_snd value_assets field_names_def holding_def dom_def
        split: option.splits)
qed

lemma sell_field:
  assumes "a \<in> field_names" "assets s a = Some h"
  shows "fst (sell s a q) \<noteq> Some WrongAssetName"
    and "h < q \<Longrightarrow> sell s a q = (Some NotEnoughAsset, s)"
  using assms by (auto simp: sell_def getattr_cases field_names_eq Let_def)

lemma sell_no_attribute:
  assumes "a \<notin> field_names" "a \<notin> set object_attributes" "q \<le> holding s a"
  shows "sell s a q = (Some WrongAssetName, s)"
proof -
  from assms(1,2) have "getattr (current_prices s) a = AttributeError"
    by (simp add: getattr_AttributeError_iff)
  with assms(3) show ?thesis
    by (simp add: sell_def holding_def split: option.splits)
qed

text \<open>
  C9, as the code has it. Reading \<^verbatim>\<open>asset_values\<close> inserts a zero record for every field of
  the snapshot that the holdings mapping has no record of, and changes no record that is
  there; construction reads it once, on the holdings it was given. So in every state from
  construction onward each field of the snapshot has a record, and \<^verbatim>\<open>sell\<close> of a field never
  raises WrongAssetName: it raises NotEnoughAsset when the quantity is above the record, as
  a positive quantity is for a field that the constructor was given none of and that no
  \<^verbatim>\<open>buy\<close>, and no \<^verbatim>\<open>sell\<close> of a negative quantity, has named. WrongAssetName comes from
  \<^verbatim>\<open>sell\<close> for names outside the fields only: for every name without a record, and for a
  name with a record (given to the constructor) that the snapshot has no attribute of, when
  the quantity is not above the record.
\<close>

theorem sell_after_construction:
  "assets (snd (asset_values s0)) a =
     (if a \<in> field_names \<and> assets s0 a = None then Some 0 else assets s0 a) \<and>
   (PortfolioSimulator_init u t logo_txt h c m = Inr s1 \<longrightarrow>
      assets s1 a = (if a \<in> field_names \<and> m a = None then Some 0 else m a)) \<and>
   (reachable u T s \<longrightarrow>
      field_names \<subseteq> dom (assets s) \<and>
      (a \<in> field_names \<and> a \<notin> T \<and> 0 < q \<longrightarrow> sell s a q = (Some NotEnoughAsset, s)) \<and>
      (a \<in> field_names \<and> holding s a < q \<longrightarrow> sell s a q = (Some NotEnoughAsset, s)) \<and>
      (fst (sell s a q) = Some WrongAssetName \<longrightarrow> a \<notin> field_names) \<and>
      (a \<notin> dom (assets s) \<longrightarrow> sell s a q = (Some WrongAssetName, s)) \<and>
      (a \<notin> field_names \<and> a \<notin> set object_attributes \<and> q \<le> holding s a \<longrightarrow>
         sell s a q = (Some WrongAssetName, s)))"
proof (intro conjI impI)
  show "assets (snd (asset_values s0)) a =
     (if a \<in> field_names \<and> assets s0 a = None then Some 0 else assets s0 a)"
    by (rule asset_values_assets)
next
  assume "PortfolioSimulator_init u t logo_txt h c m = Inr s1"
  then show "assets s1 a = (if a \<in> field_names \<and> m a = None then Some 0 else m a)"
    by (rule init_assets)
next
  assume r: "reachable u T s"
  from reachable_holdings [OF r] have zero: "\<forall>a. a \<notin> T \<longrightarrow> holding s a = 0"
    by simp
  from reachable_holdings [OF r] show dom: "field_names \<subseteq> dom (assets s)"
    by simp
  {
    assume a: "a \<in> field_names \<and> holding s a < q"
    with dom obtain k where k: "assets s a = Some k" by auto
    with a have "k < q" by (simp add: holding_def)
    with a k show "sell s a q = (Some NotEnoughAsset, s)"
      by (simp add: sell_field(2))
  }
  {
    assume a: "a \<in> field_names \<and> a \<notin> T \<and> 0 < q"
    with dom obtain k where k: "assets s a = Some k" by auto
    with a zero have "k < q" by (auto simp: holding_def)
    with a k show "sell s a q = (Some NotEnoughAsset, s)"
      by (simp add: sell_field(2))
  }
  {
    assume w: "fst (sell s a q) = Some WrongAssetName"
    show "a \<notin> field_names"
    proof
      assume a: "a \<in> field_names"
      with dom obtain k where "assets s a = Some k" by auto
      from sell_field(1) [OF a this] w show False by simp
    qed
  }
  {
    assume "a \<notin> dom (assets s)"
    then show "sell s a q = (Some WrongAssetName, s)"
      by (simp add: sell_def dom_def)
  }
  {
    assume "a \<notin> field_names \<and> a \<notin> set object_attributes \<and> q \<le> holding s a"
    then show "sell s a q = (Some WrongAssetName, s)"
      by (simp add: sell_no_attribute)
  }
qed

lemma reachable_real_start: "reachable script_uniform {} (real_start default_cash)"
  using reachable.constructed [OF init_real_start [of default_cash 738773]]
  by (simp add: default_cash_def Decimal_of_int_def)

lemma init_gazp_start:
  "PortfolioSimulator_init script_uniform 738773 (Some ''logo'') RealAssetPriceHistory
     default_cash [''GAZP'' \<mapsto> 5] = Inr gazp_start"
  by (simp add: PortfolioSimulator_init_def not_dless_default_cash iter_def real_table_def
      value_def asset_values_def dataclass_fields_def defaultdict_getitem_def sum_decimal_def
      real_start_def gazp_start_def Let_def)

lemma reachable_gazp_start: "reachable script_uniform {''GAZP''} gazp_start"
proof -
  have "{k. [''GAZP'' \<mapsto> 5::int] k \<noteq> None \<and> [''GAZP'' \<mapsto> 5::int] k \<noteq> Some 0} = {''GAZP''}"
    by auto
  with reachable.constructed [OF init_gazp_start] show ?thesis by simp
qed

lemma real_start_holdings:
  "assets (real_start default_cash) ''SBER'' = Some 0"
  "holding (snd (buy (real_start default_cash) ''SBER'' 10)) ''SBER'' = 10"
  "holding gazp_start ''GAZP'' = 5"
  "''GAZP'' \<notin> dom (assets (real_start default_cash))"
  by (simp_all add: holding_def real_start_def gazp_start_def buy_behaviour getattr_cases
      Decimal_of_int_def default_cash_def dless_def aligned_def Let_def dmul_def Decimal_fix_def
      ndigits_def digits_from.simps [of 2550] prec_def)

theorem sell_after_construction_witness:
  "reachable script_uniform {} (real_start default_cash) \<and>
   reachable script_uniform {''SBER''} (snd (buy (real_start default_cash) ''SBER'' 10)) \<and>
   reachable script_uniform {''GAZP''} gazp_start \<and>
   assets (real_start default_cash) ''SBER'' = Some 0 \<and>
   sell (real_start default_cash) ''SBER'' 5 = (Some NotEnoughAsset, real_start default_cash) \<and>
   sell (snd (buy (real_start default_cash) ''SBER'' 10)) ''LKOH'' 1 =
     (Some NotEnoughAsset, snd (buy (real_start default_cash) ''SBER'' 10)) \<and>
   sell (snd (buy (real_start default_cash) ''SBER'' 10)) ''SBER'' 11 =
     (Some NotEnoughAsset, snd (buy (real_start default_cash) ''SBER'' 10)) \<and>
   sell (real_start default_cash) ''GAZP'' 5 = (Some WrongAssetName, real_start default_cash) \<and>
   sell gazp_start ''GAZP'' 1 = (Some WrongAssetName, gazp_start) \<and>
   ''GAZP'' \<notin> field_names"
proof -
  have init: "PortfolioSimulator_init script_uniform 738773 (Some ''logo'') RealAssetPriceHistory
      default_cash Map.empty = Inr (real_start default_cash)"
    by (rule init_real_start) (simp add: default_cash_def Decimal_of_int_def)
  have r0: "reachable script_uniform {} (real_start default_cash)"
    by (rule reachable_real_start)
  then have r1: "reachable script_uniform {''SBER''} (snd (buy (real_start default_cash) ''SBER'' 10))"
    by (rule reachable.bought)
  have r2: "reachable script_uniform {''GAZP''} gazp_start"
    by (rule reachable_gazp_start)
  have names: "''SBER'' \<in> field_names" "''LKOH'' \<in> field_names"
    "''SBER'' \<notin> {}" "''LKOH'' \<notin> {''SBER''}"
    "''GAZP'' \<notin> {''LKOH'', ''SBER''}" "''GAZP'' \<notin> set object_attributes"
    by (simp_all add: field_names_eq object_attributes_def)
  have q: "(0::int) < 5" "(0::int) < 1" "(10::int) < 11" "(1::int) \<le> 5" by simp_all
  note sber = sell_after_construction
    [of "real_start default_cash" "''SBER''" script_uniform 738773 "Some ''logo''"
      RealAssetPriceHistory default_cash Map.empty "real_start default_cash" "{}"
      "real_start default_cash" 5]
  note lkoh = sell_after_construction
    [of "real_start default_cash" "''LKOH''" script_uniform 738773 "Some ''logo''"
      RealAssetPriceHistory default_cash Map.empty "real_start default_cash" "{''SBER''}"
      "snd (buy (real_start default_cash) ''SBER'' 10)" 1]
  note more = sell_after_construction
    [of "real_start default_cash" "''SBER''" script_uniform 738773 "Some ''logo''"
      RealAssetPriceHistory default_cash Map.empty "real_start default_cash" "{''SBER''}"
      "snd (buy (real_start default_cash) ''SBER'' 10)" 11]
  note none = sell_after_construction
    [of "real_start default_cash" "''GAZP''" script_uniform 738773 "Some ''logo''"
      RealAssetPriceHistory default_cash Map.empty "real_start default_cash" "{}"
      "real_start default_cash" 5]
  note gazp = sell_after_construction
    [of "real_start default_cash" "''GAZP''" script_uniform 738773 "Some ''logo''"
      RealAssetPriceHistory default_cash Map.empty "real_start default_cash" "{''GAZP''}"
      gazp_start 1]
  from sber init names(1) have z: "assets (real_start default_cash) ''SBER'' = Some 0"
    by simp
  from sber r0 names(1,3) q(1)
  have a: "sell (real_start default_cash) ''SBER'' 5 = (Some NotEnoughAsset, real_start default_cash)"
    by blast
  from lkoh r1 names(2,4) q(2)
  have b: "sell (snd (buy (real_start default_cash) ''SBER'' 10)) ''LKOH'' 1 =
     (Some NotEnoughAsset, snd (buy (real_start default_cash) ''SBER'' 10))"
    by blast
  from q(3) real_start_holdings(2)
  have "holding (snd (buy (real_start default_cash) ''SBER'' 10)) ''SBER'' < 11" by simp
  with more r1 names(1)
  have c: "sell (snd (buy (real_start default_cash) ''SBER'' 10)) ''SBER'' 11 =
     (Some NotEnoughAsset, snd (buy (real_start default_cash) ''SBER'' 10))"
    by blast
  from none r0 real_start_holdings(4)
  have d: "sell (real_start default_cash) ''GAZP'' 5 = (Some WrongAssetName, real_start default_cash)"
    by blast
  then have "fst (sell (real_start default_cash) ''GAZP'' 5) = Some WrongAssetName" by simp
  with none r0 have e: "''GAZP'' \<notin> field_names" by blast
  from q(4) real_start_holdings(3) have "1 \<le> holding gazp_start ''GAZP''" by simp
  with gazp r2 e names(6)
  have f: "sell gazp_start ''GAZP'' 1 = (Some WrongAssetName, gazp_start)"
    by blast
  from r0 r1 r2 z a b c d e f show ?thesis by blast
qed

lemma sber_start_value:
  "dadd default_cash (dadd (Decimal_of_int 0) (dmul (Decimal_of_int 255) (Decimal_of_int 5))) =
     Decimal 101275 0"
  by code_simp

lemma init_sber_start:
  "PortfolioSimulator_init script_uniform 738773 (Some ''logo'') RealAssetPriceHistory
     default_cash [''SBER'' \<mapsto> 5] = Inr sber_start"
  by (simp add: PortfolioSimulator_init_def not_dless_default_cash iter_def real_table_def
      value_def asset_values_def dataclass_fields_def defaultdict_getitem_def sum_decimal_def
      real_start_def sber_start_def sber_start_value Let_def)

lemma constructor_holdings_trades:
  "assets gazp_start ''GAZP'' = Some 5"
  "assets sber_start ''SBER'' = Some 5"
  "fst (sell sber_start ''SBER'' 3) = None"
  "fst (sell (real_start default_cash) ''SBER'' (- 5)) = None"
  "fst (sell (snd (sell (real_start default_cash) ''SBER'' (- 5))) ''SBER'' 3) = None"
  by code_simp+

text \<open>
  C9 as stated fails where the constructor is given holdings. Given five GAZP, a name that
  is no field of the snapshot, the holdings mapping has a record of it, yet
  \<^verbatim>\<open>sell('GAZP', 1)\<close> raises WrongAssetName, from the \<^verbatim>\<open>except AttributeError\<close> of \<^verbatim>\<open>sell\<close>.
  Given five SBER, the accessor leaves that record as it is, and \<^verbatim>\<open>sell('SBER', 3)\<close>
  succeeds on an asset that was never bought. It succeeds also after \<^verbatim>\<open>sell('SBER', -5)\<close>
  on a simulator constructed with nothing, the negative quantity getting through unchecked.
\<close>

theorem sell_with_constructor_holdings:
  "PortfolioSimulator_init script_uniform 738773 (Some ''logo'') RealAssetPriceHistory
      default_cash [''GAZP'' \<mapsto> 5] = Inr gazp_start \<and>
   assets gazp_start ''GAZP'' = Some 5 \<and>
   sell gazp_start ''GAZP'' 1 = (Some WrongAssetName, gazp_start) \<and>
   PortfolioSimulator_init script_uniform 738773 (Some ''logo'') RealAssetPriceHistory
      default_cash [''SBER'' \<mapsto> 5] = Inr sber_start \<and>
   ''SBER'' \<in> field_names \<and>
   assets sber_start ''SBER'' = Some 5 \<and>
   fst (sell sber_start ''SBER'' 3) = None \<and>
   PortfolioSimulator_init script_uniform 738773 (Some ''logo'') RealAssetPriceHistory
      default_cash Map.empty = Inr (real_start default_cash) \<and>
   fst (sell (real_start default_cash) ''SBER'' (- 5)) = None \<and>
   fst (sell (snd (sell (real_start default_cash) ''SBER'' (- 5))) ''SBER'' 3) = None"
  using init_gazp_start init_sber_start init_real_start [of default_cash 738773]
    constructor_holdings_trades
    sell_no_attribute [of "''GAZP''" 1 gazp_start]
  by (simp add: default_cash_def Decimal_of_int_def field_names_eq object_attributes_def
      holding_def gazp_start_def)

section \<open>Total value across a trade\<close>

lemma digits_from_le:
  "p = 10 ^ k \<Longrightarrow> m < 10 ^ n \<Longrightarrow> k \<le> n \<Longrightarrow> digits_from m k p \<le> n"
proof (induction "n - k" arbitrary: k p)
  case 0
  then have "k = n" by simp
  with 0 show ?case by (subst digits_from.simps) simp
next
  case (Suc d)
  show ?case
  proof (cases "m < p")
    case True
    with Suc.prems show ?thesis by (subst digits_from.simps) simp
  next
    case False
    have p: "0 < p" using Suc.prems(1) by simp
    from Suc.hyps(2) have "d = n - Suc k" "Suc k \<le> n" by simp_all
    from Suc.hyps(1) [OF this(1) _ Suc.prems(2) this(2), of "p * 10"] Suc.prems(1)
    have "digits_from m (Suc k) (p * 10) \<le> n" by simp
    with False p show ?thesis by (subst digits_from.simps) simp
  qed
qed

lemma ndigits_le: "m < 10 ^ n \<Longrightarrow> 0 < n \<Longrightarrow> ndigits m \<le> n"
  unfolding ndigits_def by (rule digits_from_le) simp_all

lemma Decimal_fix_exact: "\<bar>coeff x\<bar> < 10 ^ prec \<Longrightarrow> Decimal_fix x = x"
  using ndigits_le [of "\<bar>coeff x\<bar>" prec]
  by (simp add: Decimal_fix_def Let_def prec_def)

lemma aligned_shift:
  assumes "g \<le> e" "e \<le> expo x"
  shows "aligned x g = aligned x e * 10 ^ nat (e - g)"
proof -
  from assms have "nat (expo x - g) = nat (expo x - e) + nat (e - g)" by simp
  then show ?thesis by (simp add: aligned_def power_add)
qed

lemma abs_le_scaled:
  fixes c :: int
  shows "\<bar>c\<bar> \<le> \<bar>c * 10 ^ n\<bar>"
proof -
  have "(1::int) \<le> 10 ^ n" by simp
  then have "\<bar>c\<bar> * 1 \<le> \<bar>c\<bar> * 10 ^ n" by (rule mult_left_mono) simp
  then show ?thesis by (simp add: abs_mult)
qed

lemma exact_add:
  assumes "exact g x u" "exact g y v" "\<bar>u + v\<bar> < 10 ^ prec"
  shows "exact g (dadd x y) (u + v)"
proof -
  define e where "e = min (expo x) (expo y)"
  define c where "c = aligned x e + aligned y e"
  from assms have g: "g \<le> e" "e \<le> expo x" "e \<le> expo y"
    by (simp_all add: exact_def e_def)
  have sum: "c * 10 ^ nat (e - g) = u + v"
    using assms(1,2) aligned_shift [OF g(1,2)] aligned_shift [OF g(1,3)]
    by (simp add: exact_def c_def distrib_right)
  with assms(3) abs_le_scaled [of c "nat (e - g)"] have "\<bar>c\<bar> < 10 ^ prec" by simp
  then have "Decimal_fix (Decimal c e) = Decimal c e"
    by (simp add: Decimal_fix_exact)
  then have "dadd x y = Decimal c e"
    by (simp add: dadd_def Let_def e_def c_def)
  with g(1) sum show ?thesis
    by (simp add: exact_def aligned_def)
qed

lemma exact_neg: "exact g y v \<Longrightarrow> exact g (dneg y) (- v)"
  by (simp add: exact_def dneg_def aligned_def)

lemma exact_sub:
  assumes "exact g x u" "exact g y v" "\<bar>u - v\<bar> < 10 ^ prec"
  shows "exact g (dsub x y) (u - v)"
  using exact_add [OF assms(1) exact_neg [OF assms(2)]] assms(3)
  by (simp add: dsub_def)

lemma exact_mul_int:
  assumes "g \<le> expo p" "\<bar>aligned p g * q\<bar> < 10 ^ prec"
  shows "exact g (dmul p (Decimal_of_int q)) (aligned p g * q)"
proof -
  have eq: "coeff p * q * 10 ^ nat (expo p - g) = aligned p g * q"
    by (simp add: aligned_def mult.assoc mult.left_commute)
  with assms(2) abs_le_scaled [of "coeff p * q" "nat (expo p - g)"]
  have "\<bar>coeff p * q\<bar> < 10 ^ prec" by simp
  then have "Decimal_fix (Decimal (coeff p * q) (expo p)) = Decimal (coeff p * q) (expo p)"
    by (simp add: Decimal_fix_exact)
  then have "dmul p (Decimal_of_int q) = Decimal (coeff p * q) (expo p)"
    by (simp add: dmul_def Decimal_of_int_def)
  with assms eq show ?thesis
    by (simp add: exact_def aligned_def)
qed

lemma exact_zero: "g \<le> 0 \<Longrightarrow> exact g (Decimal_of_int 0) 0"
  by (simp add: exact_def Decimal_of_int_def aligned_def)

lemma exact_compare:
  assumes "exact g x u" "exact g y v"
  shows "deq x y \<longleftrightarrow> u = v" and "dless x y \<longleftrightarrow> u < v"
proof -
  define e where "e = min (expo x) (expo y)"
  from assms have g: "g \<le> e" "e \<le> expo x" "e \<le> expo y"
    by (simp_all add: exact_def e_def)
  have u: "u = aligned x e * 10 ^ nat (e - g)" and v: "v = aligned y e * 10 ^ nat (e - g)"
    using assms aligned_shift [OF g(1,2)] aligned_shift [OF g(1,3)]
    by (simp_all add: exact_def)
  show "deq x y \<longleftrightarrow> u = v"
    by (simp add: deq_def Let_def e_def [symmetric] u v)
  show "dless x y \<longleftrightarrow> u < v"
    by (simp add: dless_def Let_def e_def [symmetric] u v)
qed


lemma asset_values_fst:
  "map (\<lambda>(_, _, price). price) (fst (asset_values s)) =
     (if holding s ''LKOH'' \<noteq> 0
      then [dmul (LKOH (current_prices s)) (Decimal_of_int (holding s ''LKOH''))] else []) @
     (if holding s ''SBER'' \<noteq> 0
      then [dmul (SBER (current_prices s)) (Decimal_of_int (holding s ''SBER''))] else [])"
  by (simp add: asset_values_def dataclass_fields_def defaultdict_getitem_def holding_def
      Let_def split: option.splits)

lemma value_fst:
  "fst (value s) = dadd (cash s) (sum_decimal (map (\<lambda>(_, _, price). price) (fst (asset_values s))))"
  by (simp add: value_def case_prod_beta)

lemma exact_term:
  assumes acc: "exact g acc u" and p: "g \<le> expo p" "0 \<le> aligned p g" and h: "0 \<le> h"
    and u: "0 \<le> u" and bound: "u + h * aligned p g < 10 ^ prec"
  shows "exact g (foldl dadd acc (if h \<noteq> 0 then [dmul p (Decimal_of_int h)] else []))
           (u + h * aligned p g)"
proof (cases "h = 0")
  case True
  with acc show ?thesis by simp
next
  case False
  have nn: "0 \<le> h * aligned p g" using p(2) h by simp
  with u bound have "\<bar>aligned p g * h\<bar> < 10 ^ prec" by (simp add: mult.commute)
  from exact_mul_int [OF p(1) this]
  have t: "exact g (dmul p (Decimal_of_int h)) (h * aligned p g)" by (simp add: mult.commute)
  from nn u bound have "\<bar>u + h * aligned p g\<bar> < 10 ^ prec" by simp
  from exact_add [OF acc t this] False show ?thesis by simp
qed

lemma value_exact:
  assumes "solvent s" "prices_nonneg (current_prices s)" "fits g s"
  shows "exact g (fst (value s)) (total_units g s)"
proof -
  define C where "C = aligned (cash s) g"
  define P1 where "P1 = aligned (LKOH (current_prices s)) g"
  define P2 where "P2 = aligned (SBER (current_prices s)) g"
  define h1 where "h1 = holding s ''LKOH''"
  define h2 where "h2 = holding s ''SBER''"
  from assms(1) have C: "0 \<le> C" and h: "0 \<le> h1" "0 \<le> h2"
    by (auto simp: solvent_def C_def h1_def h2_def holding_def aligned_def split: option.splits)
  from assms(2) have P: "0 \<le> P1" "0 \<le> P2"
    by (simp_all add: prices_nonneg_def P1_def P2_def aligned_def)
  from assms(3) have g: "g \<le> 0" "g \<le> expo (cash s)" "g \<le> expo (LKOH (current_prices s))"
    "g \<le> expo (SBER (current_prices s))" and T: "C + h1 * P1 + h2 * P2 < 10 ^ prec"
    by (simp_all add: fits_def total_units_def C_def P1_def P2_def h1_def h2_def)
  have A: "0 \<le> h1 * P1" and B: "0 \<le> h2 * P2" using h P by simp_all
  have z: "exact g (Decimal_of_int 0) 0" using g(1) by (rule exact_zero)
  have b1: "0 + h1 * P1 < 10 ^ prec" and b2: "(0 + h1 * P1) + h2 * P2 < 10 ^ prec"
    and n1: "0 \<le> 0 + h1 * P1" and bc: "C < 10 ^ prec"
    using C A B T by linarith+
  have s1: "exact g (foldl dadd (Decimal_of_int 0)
      (if h1 \<noteq> 0 then [dmul (LKOH (current_prices s)) (Decimal_of_int h1)] else [])) (0 + h1 * P1)"
    unfolding P1_def
    by (rule exact_term [OF z g(3) P(1) [unfolded P1_def] h(1) order_refl b1 [unfolded P1_def]])
  have s2: "exact g (foldl dadd (foldl dadd (Decimal_of_int 0)
      (if h1 \<noteq> 0 then [dmul (LKOH (current_prices s)) (Decimal_of_int h1)] else []))
      (if h2 \<noteq> 0 then [dmul (SBER (current_prices s)) (Decimal_of_int h2)] else []))
      ((0 + h1 * P1) + h2 * P2)"
    unfolding P2_def
    by (rule exact_term [OF s1 g(4) P(2) [unfolded P2_def] h(2) n1 b2 [unfolded P2_def]])
  have c: "exact g (cash s) C"
    using g(2) by (simp add: exact_def C_def)
  have "\<bar>C + ((0 + h1 * P1) + h2 * P2)\<bar> < 10 ^ prec" using C A B T by linarith
  from exact_add [OF c s2 this]
  have r: "exact g (dadd (cash s) (foldl dadd (foldl dadd (Decimal_of_int 0)
      (if h1 \<noteq> 0 then [dmul (LKOH (current_prices s)) (Decimal_of_int h1)] else []))
      (if h2 \<noteq> 0 then [dmul (SBER (current_prices s)) (Decimal_of_int h2)] else [])))
      (C + ((0 + h1 * P1) + h2 * P2))" .
  have v: "fst (value s) = dadd (cash s) (foldl dadd (foldl dadd (Decimal_of_int 0)
      (if h1 \<noteq> 0 then [dmul (LKOH (current_prices s)) (Decimal_of_int h1)] else []))
      (if h2 \<noteq> 0 then [dmul (SBER (current_prices s)) (Decimal_of_int h2)] else []))"
    unfolding value_fst asset_values_fst sum_decimal_def foldl_append h1_def h2_def ..
  have t: "total_units g s = C + ((0 + h1 * P1) + h2 * P2)"
    by (simp add: total_units_def C_def P1_def P2_def h1_def h2_def)
  show ?thesis unfolding v t by (rule r)
qed


lemma digits_from_bounds:
  "p = 10 ^ k \<Longrightarrow> 0 < k \<Longrightarrow> 10 ^ (k - 1) \<le> m \<Longrightarrow>
     10 ^ (digits_from m k p - 1) \<le> m \<and> m < 10 ^ digits_from m k p"
proof (induction m k p rule: digits_from.induct)
  case (1 m k p)
  have p: "0 < p" using "1.prems"(1) by simp
  show ?case
  proof (cases "m < p")
    case True
    then have "digits_from m k p = k" by (subst digits_from.simps) simp
    with True "1.prems" show ?thesis by simp
  next
    case False
    with p have step: "digits_from m k p = digits_from m (Suc k) (p * 10)"
      by (subst digits_from.simps) simp
    from False p have "\<not> (m < p \<or> p \<le> 0)" by simp
    from "1.IH" [OF this] "1.prems"(1) False
    show ?thesis unfolding step by simp
  qed
qed

lemma ndigits_bounds: "1 \<le> m \<Longrightarrow> 10 ^ (ndigits m - 1) \<le> m \<and> m < 10 ^ ndigits m"
  unfolding ndigits_def
  by (rule digits_from_bounds) simp_all

lemma round_half_even_ge: "m div 10 ^ d \<le> round_half_even m d"
  by (simp add: round_half_even_def Let_def)

lemma expo_Decimal_fix: "expo x \<le> expo (Decimal_fix x)"
  by (simp add: Decimal_fix_def Let_def)

lemma pow10_div: "(10::int) ^ (a + b) div 10 ^ b = 10 ^ a"
  by (simp add: power_add)

lemma Decimal_fix_large:
  assumes "10 ^ prec \<le> c"
  shows "10 ^ prec \<le> aligned (Decimal_fix (Decimal c e)) e"
proof -
  define n where "n = ndigits c"
  define d where "d = n - prec"
  define q where "q = round_half_even c d"
  have "(0::int) < 10 ^ prec" by simp
  with assms have c1: "1 \<le> c" by linarith
  from ndigits_bounds [OF c1] have lo: "10 ^ (n - 1) \<le> c" and hi: "c < 10 ^ n"
    by (simp_all add: n_def)
  from assms hi have "(10::int) ^ prec < 10 ^ n" by linarith
  then have n: "prec < n" by (simp add: power_less_imp_less_exp)
  have prec: "0 < prec" by (simp add: prec_def)
  from n prec have split: "n - 1 = (prec - 1) + d" and nd: "n = prec + d" and d: "0 < d"
    by (simp_all add: d_def)
  have "(10::int) ^ (n - 1) div 10 ^ d \<le> c div 10 ^ d"
    using lo by (intro zdiv_mono1) simp_all
  then have "(10::int) ^ (prec - 1) \<le> c div 10 ^ d"
    unfolding split by (simp only: pow10_div)
  with round_half_even_ge [of c d] have q: "10 ^ (prec - 1) \<le> q"
    by (simp add: q_def)
  have sgn: "sgn c = 1" and abs: "\<bar>c\<bar> = c" using c1 by simp_all
  have unfold: "Decimal_fix (Decimal c e) =
      (if prec < ndigits q then Decimal (q div 10) (e + int d + 1) else Decimal q (e + int d))"
    using n by (simp add: Decimal_fix_def Let_def abs sgn n_def [symmetric] d_def [symmetric]
        q_def [symmetric])
  show ?thesis
  proof (cases "prec < ndigits q")
    case True
    have "10 ^ prec \<le> q"
    proof (rule ccontr)
      assume "\<not> 10 ^ prec \<le> q"
      then have "q < 10 ^ prec" by simp
      from ndigits_le [OF this prec] True show False by simp
    qed
    then have "(10::int) ^ ((prec - 1) + 1) div 10 ^ 1 \<le> q div 10 ^ 1"
      using prec by (intro zdiv_mono1) simp_all
    then have "(10::int) ^ (prec - 1) \<le> q div 10"
      by (simp only: pow10_div) simp
    then have "(10::int) ^ (prec - 1) * 10 ^ (d + 1) \<le> q div 10 * 10 ^ (d + 1)"
      by (intro mult_right_mono) simp_all
    moreover have "(10::int) ^ prec \<le> 10 ^ (prec - 1) * 10 ^ (d + 1)"
      unfolding power_add [symmetric] by (intro power_increasing) simp_all
    ultimately have "10 ^ prec \<le> q div 10 * 10 ^ (d + 1)" by linarith
    moreover have "nat (e + int d + 1 - e) = d + 1" by simp
    ultimately show ?thesis
      using True by (simp add: unfold aligned_def del: power_Suc)
  next
    case False
    from q have "(10::int) ^ (prec - 1) * 10 ^ d \<le> q * 10 ^ d"
      by (intro mult_right_mono) simp_all
    moreover have "(10::int) ^ prec \<le> 10 ^ (prec - 1) * 10 ^ d"
      unfolding power_add [symmetric] using d by (intro power_increasing) simp_all
    ultimately have "10 ^ prec \<le> q * 10 ^ d" by linarith
    with False show ?thesis
      by (simp add: unfold aligned_def)
  qed
qed


lemma cost_within_cash:
  assumes g: "g \<le> expo c" "g \<le> expo p"
    and c: "aligned c g < 10 ^ prec" and p: "0 \<le> aligned p g" and q: "0 \<le> q"
    and ok: "\<not> dless c (dmul p (Decimal_of_int q))"
  shows "aligned p g * q \<le> aligned c g"
proof (cases "coeff p * q < 10 ^ prec")
  case True
  have cp: "0 \<le> coeff p"
  proof (rule ccontr)
    assume "\<not> 0 \<le> coeff p"
    then have "coeff p * 10 ^ nat (expo p - g) < 0"
      by (intro mult_neg_pos) simp_all
    with p show False by (simp add: aligned_def)
  qed
  with q True have "\<bar>coeff p * q\<bar> < 10 ^ prec" by simp
  then have "Decimal_fix (Decimal (coeff p * q) (expo p)) = Decimal (coeff p * q) (expo p)"
    by (simp add: Decimal_fix_exact)
  then have "dmul p (Decimal_of_int q) = Decimal (coeff p * q) (expo p)"
    by (simp add: dmul_def Decimal_of_int_def)
  with g(2) have "exact g (dmul p (Decimal_of_int q)) (aligned p g * q)"
    by (simp add: exact_def aligned_def mult.assoc mult.left_commute)
  moreover from g(1) have "exact g c (aligned c g)" by (simp add: exact_def)
  ultimately have "dless c (dmul p (Decimal_of_int q)) \<longleftrightarrow> aligned c g < aligned p g * q"
    by (rule exact_compare(2) [rotated])
  with ok show ?thesis by simp
next
  case False
  define r where "r = dmul p (Decimal_of_int q)"
  have r: "r = Decimal_fix (Decimal (coeff p * q) (expo p))"
    by (simp add: r_def dmul_def Decimal_of_int_def)
  from False have "10 ^ prec \<le> coeff p * q" by simp
  from Decimal_fix_large [OF this, of "expo p"] have big: "10 ^ prec \<le> aligned r (expo p)"
    by (simp add: r)
  have e: "expo p \<le> expo r" using expo_Decimal_fix [of "Decimal (coeff p * q) (expo p)"]
    by (simp add: r)
  from aligned_shift [OF g(2) e] have "aligned r g = aligned r (expo p) * 10 ^ nat (expo p - g)" .
  moreover have "aligned r (expo p) * 1 \<le> aligned r (expo p) * 10 ^ nat (expo p - g)"
    using big by (intro mult_left_mono) (simp_all add: order_trans [OF _ big])
  ultimately have "10 ^ prec \<le> aligned r g" using big by linarith
  with c have lt: "aligned c g < aligned r g" by linarith
  from g(2) e have "exact g r (aligned r g)" by (simp add: exact_def)
  moreover from g(1) have "exact g c (aligned c g)" by (simp add: exact_def)
  ultimately have "dless c r \<longleftrightarrow> aligned c g < aligned r g"
    by (rule exact_compare(2) [rotated])
  with lt ok show ?thesis by (simp add: r_def)
qed

lemma buy_cash_exact:
  assumes g: "g \<le> expo c" "g \<le> expo p"
    and c: "0 \<le> aligned c g" "aligned c g < 10 ^ prec" and p: "0 \<le> aligned p g" and q: "0 \<le> q"
    and ok: "\<not> dless c (dmul p (Decimal_of_int q))"
  shows "exact g (dsub c (dmul p (Decimal_of_int q))) (aligned c g - aligned p g * q)"
proof -
  from cost_within_cash [OF g c(2) p q ok] have le: "aligned p g * q \<le> aligned c g" .
  have nn: "0 \<le> aligned p g * q" using p q by simp
  with le c have "\<bar>aligned p g * q\<bar> < 10 ^ prec" by simp
  from exact_mul_int [OF g(2) this]
  have cost: "exact g (dmul p (Decimal_of_int q)) (aligned p g * q)" .
  from g(1) have cash: "exact g c (aligned c g)" by (simp add: exact_def)
  from le nn c have "\<bar>aligned c g - aligned p g * q\<bar> < 10 ^ prec" by simp
  from exact_sub [OF cash cost this] show ?thesis .
qed

lemma sell_cash_exact:
  assumes g: "g \<le> expo c" "g \<le> expo p"
    and c: "0 \<le> aligned c g" and p: "0 \<le> aligned p g" and q: "0 \<le> q"
    and b: "aligned c g + aligned p g * q < 10 ^ prec"
  shows "exact g (dadd c (dmul p (Decimal_of_int q))) (aligned c g + aligned p g * q)"
proof -
  have nn: "0 \<le> aligned p g * q" using p q by simp
  with c b have "\<bar>aligned p g * q\<bar> < 10 ^ prec" by simp
  from exact_mul_int [OF g(2) this]
  have gain: "exact g (dmul p (Decimal_of_int q)) (aligned p g * q)" .
  from g(1) have cash: "exact g c (aligned c g)" by (simp add: exact_def)
  from nn c b have "\<bar>aligned c g + aligned p g * q\<bar> < 10 ^ prec" by simp
  from exact_add [OF cash gain this] show ?thesis .
qed


lemma fits_parts:
  assumes "solvent s" "prices_nonneg (current_prices s)" "fits g s"
  shows "0 \<le> aligned (cash s) g" "0 \<le> aligned (LKOH (current_prices s)) g"
    "0 \<le> aligned (SBER (current_prices s)) g" "0 \<le> holding s ''LKOH''" "0 \<le> holding s ''SBER''"
    "0 \<le> holding s ''LKOH'' * aligned (LKOH (current_prices s)) g"
    "0 \<le> holding s ''SBER'' * aligned (SBER (current_prices s)) g"
  using assms
  by (auto simp: solvent_def prices_nonneg_def holding_def aligned_def split: option.splits)

lemma buy_keeps_total:
  assumes s: "solvent s" "prices_nonneg (current_prices s)" "fits g s"
    and q: "0 \<le> q" and a: "a \<in> field_names" and buy: "buy s a q = (None, s')"
  shows "fits g s' \<and> total_units g s' = total_units g s"
proof -
  note nn = fits_parts [OF s]
  from s(3) have g: "g \<le> 0" "g \<le> expo (cash s)" "g \<le> expo (LKOH (current_prices s))"
    "g \<le> expo (SBER (current_prices s))" and T: "total_units g s < 10 ^ prec"
    by (simp_all add: fits_def)
  from T nn have C: "aligned (cash s) g < 10 ^ prec"
    unfolding total_units_def by linarith
  from a consider (L) "a = ''LKOH''" | (S) "a = ''SBER''"
    by (auto simp: field_names_eq)
  then show ?thesis
  proof cases
    case L
    define p where "p = LKOH (current_prices s)"
    from buy L have ok: "\<not> dless (cash s) (dmul p (Decimal_of_int q))"
      and s': "s' = s\<lparr>cash := dsub (cash s) (dmul p (Decimal_of_int q)),
                       assets := (assets s)(''LKOH'' \<mapsto> holding s ''LKOH'' + q)\<rparr>"
      by (auto simp: buy_behaviour getattr_cases p_def split: if_splits)
    from buy_cash_exact [OF g(2) g(3) [folded p_def] nn(1) C nn(2) [folded p_def] q ok]
    have c': "g \<le> expo (cash s')"
      "aligned (cash s') g = aligned (cash s) g - aligned p g * q"
      by (simp_all add: exact_def s')
    have h: "holding s' ''LKOH'' = holding s ''LKOH'' + q" "holding s' ''SBER'' = holding s ''SBER''"
      by (simp_all add: holding_def s')
    have total: "total_units g s' = total_units g s"
      by (simp add: total_units_def c' h p_def algebra_simps) (simp add: s')
    with c'(1) g T show ?thesis
      by (simp add: fits_def) (simp add: s')
  next
    case S
    define p where "p = SBER (current_prices s)"
    from buy S have ok: "\<not> dless (cash s) (dmul p (Decimal_of_int q))"
      and s': "s' = s\<lparr>cash := dsub (cash s) (dmul p (Decimal_of_int q)),
                       assets := (assets s)(''SBER'' \<mapsto> holding s ''SBER'' + q)\<rparr>"
      by (auto simp: buy_behaviour getattr_cases p_def split: if_splits)
    from buy_cash_exact [OF g(2) g(4) [folded p_def] nn(1) C nn(3) [folded p_def] q ok]
    have c': "g \<le> expo (cash s')"
      "aligned (cash s') g = aligned (cash s) g - aligned p g * q"
      by (simp_all add: exact_def s')
    have h: "holding s' ''SBER'' = holding s ''SBER'' + q" "holding s' ''LKOH'' = holding s ''LKOH''"
      by (simp_all add: holding_def s')
    have total: "total_units g s' = total_units g s"
      by (simp add: total_units_def c' h p_def algebra_simps) (simp add: s')
    with c'(1) g T show ?thesis
      by (simp add: fits_def) (simp add: s')
  qed
qed


lemma sell_behaviour:
  "a \<in> field_names \<Longrightarrow> getattr (current_prices s) a = Field p \<Longrightarrow>
   sell s a q =
     (case assets s a of
        None \<Rightarrow> (Some WrongAssetName, s)
      | Some h \<Rightarrow>
          if h < q then (Some NotEnoughAsset, s)
          else (None, s\<lparr>cash := dadd (cash s) (dmul p (Decimal_of_int q)),
                        assets := (assets s)(a \<mapsto> h - q)\<rparr>))"
  by (simp add: sell_def Let_def split: option.splits)

lemma sell_keeps_total:
  assumes s: "solvent s" "prices_nonneg (current_prices s)" "fits g s"
    and q: "0 \<le> q" and a: "a \<in> field_names" and sell: "sell s a q = (None, s')"
  shows "fits g s' \<and> total_units g s' = total_units g s"
proof -
  note nn = fits_parts [OF s]
  from s(3) have g: "g \<le> 0" "g \<le> expo (cash s)" "g \<le> expo (LKOH (current_prices s))"
    "g \<le> expo (SBER (current_prices s))" and T: "total_units g s < 10 ^ prec"
    by (simp_all add: fits_def)
  from a consider (L) "a = ''LKOH''" | (S) "a = ''SBER''"
    by (auto simp: field_names_eq)
  then show ?thesis
  proof cases
    case L
    define p where "p = LKOH (current_prices s)"
    have ga: "getattr (current_prices s) a = Field p" by (simp add: getattr_cases L p_def)
    from sell sell_behaviour [OF a ga, of q] L obtain h where
      h: "assets s ''LKOH'' = Some h" "q \<le> h" and
      s': "s' = s\<lparr>cash := dadd (cash s) (dmul p (Decimal_of_int q)),
                   assets := (assets s)(''LKOH'' \<mapsto> h - q)\<rparr>"
      by (auto split: option.splits if_splits)
    from h(1) have hh: "holding s ''LKOH'' = h" by (simp add: holding_def)
    have "q * aligned p g \<le> h * aligned p g"
      using h(2) nn(2) by (intro mult_right_mono) (simp_all add: p_def)
    then have le: "aligned p g * q \<le> holding s ''LKOH'' * aligned (LKOH (current_prices s)) g"
      by (simp add: hh p_def mult.commute)
    from T [unfolded total_units_def] nn(1) nn(7) le
    have b: "aligned (cash s) g + aligned p g * q < 10 ^ prec" by linarith
    from sell_cash_exact [OF g(2) g(3) [folded p_def] nn(1) nn(2) [folded p_def] q b]
    have c': "g \<le> expo (cash s')"
      "aligned (cash s') g = aligned (cash s) g + aligned p g * q"
      by (simp_all add: exact_def s')
    have h': "holding s' ''LKOH'' = h - q" "holding s' ''SBER'' = holding s ''SBER''"
      by (simp_all add: holding_def s')
    have total: "total_units g s' = total_units g s"
      by (simp add: total_units_def c' h' hh p_def algebra_simps) (simp add: s')
    with c'(1) g T show ?thesis
      by (simp add: fits_def) (simp add: s')
  next
    case S
    define p where "p = SBER (current_prices s)"
    have ga: "getattr (current_prices s) a = Field p" by (simp add: getattr_cases S p_def)
    from sell sell_behaviour [OF a ga, of q] S obtain h where
      h: "assets s ''SBER'' = Some h" "q \<le> h" and
      s': "s' = s\<lparr>cash := dadd (cash s) (dmul p (Decimal_of_int q)),
                   assets := (assets s)(''SBER'' \<mapsto> h - q)\<rparr>"
      by (auto split: option.splits if_splits)
    from h(1) have hh: "holding s ''SBER'' = h" by (simp add: holding_def)
    have "q * aligned p g \<le> h * aligned p g"
      using h(2) nn(3) by (intro mult_right_mono) (simp_all add: p_def)
    then have le: "aligned p g * q \<le> holding s ''SBER'' * aligned (SBER (current_prices s)) g"
      by (simp add: hh p_def mult.commute)
    from T [unfolded total_units_def] nn(1) nn(6) le
    have b: "aligned (cash s) g + aligned p g * q < 10 ^ prec" by linarith
    from sell_cash_exact [OF g(2) g(4) [folded p_def] nn(1) nn(3) [folded p_def] q b]
    have c': "g \<le> expo (cash s')"
      "aligned (cash s') g = aligned (cash s) g + aligned p g * q"
      by (simp_all add: exact_def s')
    have h': "holding s' ''SBER'' = h - q" "holding s' ''LKOH'' = holding s ''LKOH''"
      by (simp_all add: holding_def s')
    have total: "total_units g s' = total_units g s"
      by (simp add: total_units_def c' h' hh p_def algebra_simps) (simp add: s')
    with c'(1) g T show ?thesis
      by (simp add: fits_def) (simp add: s')
  qed
qed

lemma value_unchanged:
  assumes s: "solvent s" "prices_nonneg (current_prices s)" "fits g s"
    and s': "solvent s'" "current_prices s' = current_prices s" "fits g s'"
    and total: "total_units g s' = total_units g s"
  shows "deq (fst (value s')) (fst (value s))"
proof -
  from value_exact [OF s] have "exact g (fst (value s)) (total_units g s)" .
  moreover from value_exact [OF s'(1) _ s'(3)] s(2) s'(2) total
  have "exact g (fst (value s')) (total_units g s)" by simp
  ultimately show ?thesis by (simp add: exact_compare(1))
qed

lemma trade_prices:
  "buy s a q = (r, s') \<Longrightarrow> current_prices s' = current_prices s"
  "sell s a q = (r, s') \<Longrightarrow> current_prices s' = current_prices s"
  by (auto simp: buy_behaviour sell_def Let_def split: attribute.splits option.splits if_splits)

text \<open>
  C3, as the code has it. A successful buy of a known asset leaves the cash at cash minus
  price times quantity and the holding at holding plus quantity; a successful sell leaves
  cash plus price times quantity and holding minus quantity; the differences, sums and
  products being those of Decimal arithmetic, rounded to 28 significant digits. The total
  value is unchanged by either, for a positive quantity, where nothing is rounded away: in
  a state with non-negative cash, holdings and prices whose total value, counted in units
  of the finest decimal place of cash and prices, has at most 28 digits.
\<close>

theorem trade_formulas_and_value:
  "(getattr (current_prices s) a = Field price \<and> buy s a q = (None, s') \<longrightarrow>
      cash s' = dsub (cash s) (dmul price (Decimal_of_int q)) \<and>
      assets s' a = Some (holding s a + q)) \<and>
   (getattr (current_prices s) a = Field price \<and> sell s a q = (None, s') \<longrightarrow>
      cash s' = dadd (cash s) (dmul price (Decimal_of_int q)) \<and>
      assets s' a = Some (holding s a - q)) \<and>
   (solvent s \<and> prices_nonneg (current_prices s) \<and> fits g s \<and> 0 < q \<and> a \<in> field_names \<and>
    (buy s a q = (None, s') \<or> sell s a q = (None, s')) \<longrightarrow>
      deq (fst (value s')) (fst (value s)))"
proof (intro conjI impI)
  assume "getattr (current_prices s) a = Field price \<and> buy s a q = (None, s')"
  then show "cash s' = dsub (cash s) (dmul price (Decimal_of_int q))"
    "assets s' a = Some (holding s a + q)"
    by (auto simp: buy_behaviour split: if_splits)
next
  assume "getattr (current_prices s) a = Field price \<and> sell s a q = (None, s')"
  then show "cash s' = dadd (cash s) (dmul price (Decimal_of_int q))"
    "assets s' a = Some (holding s a - q)"
    by (auto simp: sell_def holding_def Let_def split: option.splits if_splits)
next
  assume h: "solvent s \<and> prices_nonneg (current_prices s) \<and> fits g s \<and> 0 < q \<and>
    a \<in> field_names \<and> (buy s a q = (None, s') \<or> sell s a q = (None, s'))"
  then have s: "solvent s" "prices_nonneg (current_prices s)" "fits g s"
    and q: "0 \<le> q" and a: "a \<in> field_names" by simp_all
  from h consider (buy) "buy s a q = (None, s')" | (sell) "sell s a q = (None, s')" by blast
  then show "deq (fst (value s')) (fst (value s))"
  proof cases
    case buy
    from buy_solvent [OF s(1) q, of a] buy have "solvent s'" by simp
    moreover from buy have "current_prices s' = current_prices s" by (rule trade_prices)
    moreover from buy_keeps_total [OF s q a buy]
    have "fits g s'" "total_units g s' = total_units g s" by simp_all
    ultimately show ?thesis using s by (intro value_unchanged)
  next
    case sell
    from sell_solvent [OF s(1,2) q, of a] sell have "solvent s'" by simp
    moreover from sell have "current_prices s' = current_prices s" by (rule trade_prices)
    moreover from sell_keeps_total [OF s q a sell]
    have "fits g s'" "total_units g s' = total_units g s" by simp_all
    ultimately show ?thesis using s by (intro value_unchanged)
  qed
qed

lemma chill_start_ok:
  "solvent chill_start" "prices_nonneg (current_prices chill_start)" "fits 0 chill_start"
  "getattr (current_prices chill_start) ''SBER'' = Field (Decimal 250 0)"
  "holding chill_start ''SBER'' = 0"
  by (simp_all add: solvent_def prices_nonneg_def fits_def total_units_def holding_def
      chill_start_def Decimal_of_int_def aligned_def prec_def getattr_cases)

lemma init_chill_start:
  "PortfolioSimulator_init script_uniform 739000 (Some ''logo'') ChillAssetPriceHistory
     (Decimal_of_int 100000) Map.empty = Inr chill_start"
  by (simp add: PortfolioSimulator_init_def iter_def AssetPrice_init_def
      value_def asset_values_def dataclass_fields_def defaultdict_getitem_def sum_decimal_def
      chill_start_def Let_def Decimal_of_int_def dadd_def dless_def aligned_def Decimal_fix_def
      ndigits_def digits_from.simps [of 100000] prec_def)

lemma chill_scenario:
  "fst (buy chill_start ''SBER'' 100) = None"
  "dsub (cash chill_start) (dmul (Decimal 250 0) (Decimal_of_int 100)) = Decimal 75000 0"
  "fst (value chill_start) = Decimal 100000 0"
  "fst (value (snd (buy chill_start ''SBER'' 100))) = Decimal 100000 0"
  "fst (sell (snd (buy chill_start ''SBER'' 100)) ''SBER'' 50) = None"
  "dadd (Decimal 75000 0) (dmul (Decimal 250 0) (Decimal_of_int 50)) = Decimal 87500 0"
  "fst (value (snd (sell (snd (buy chill_start ''SBER'' 100)) ''SBER'' 50))) = Decimal 100000 0"
  by code_simp+

theorem trade_formulas_and_value_witness:
  "PortfolioSimulator_init script_uniform 739000 (Some ''logo'') ChillAssetPriceHistory
     (Decimal_of_int 100000) Map.empty = Inr chill_start \<and>
   getattr (current_prices chill_start) ''SBER'' = Field (Decimal 250 0) \<and>
   buy chill_start ''SBER'' 100 = (None, snd (buy chill_start ''SBER'' 100)) \<and>
   solvent chill_start \<and> prices_nonneg (current_prices chill_start) \<and> fits 0 chill_start \<and>
   (0::int) < 100 \<and> ''SBER'' \<in> field_names \<and>
   cash (snd (buy chill_start ''SBER'' 100)) = Decimal 75000 0 \<and>
   assets (snd (buy chill_start ''SBER'' 100)) ''SBER'' = Some 100 \<and>
   deq (fst (value (snd (buy chill_start ''SBER'' 100)))) (fst (value chill_start)) \<and>
   fst (value chill_start) = Decimal 100000 0 \<and>
   sell (snd (buy chill_start ''SBER'' 100)) ''SBER'' 50 =
     (None, snd (sell (snd (buy chill_start ''SBER'' 100)) ''SBER'' 50)) \<and>
   cash (snd (sell (snd (buy chill_start ''SBER'' 100)) ''SBER'' 50)) = Decimal 87500 0 \<and>
   assets (snd (sell (snd (buy chill_start ''SBER'' 100)) ''SBER'' 50)) ''SBER'' = Some 50 \<and>
   deq (fst (value (snd (sell (snd (buy chill_start ''SBER'' 100)) ''SBER'' 50))))
       (fst (value (snd (buy chill_start ''SBER'' 100))))"
proof -
  define s1 where "s1 = snd (buy chill_start ''SBER'' 100)"
  define s2 where "s2 = snd (sell s1 ''SBER'' 50)"
  have b: "buy chill_start ''SBER'' 100 = (None, s1)"
    using chill_scenario(1) by (simp add: prod_eq_iff s1_def)
  have s: "sell s1 ''SBER'' 50 = (None, s2)"
    using chill_scenario(5) by (simp add: prod_eq_iff s1_def s2_def)
  have q: "(0::int) < 100" "(0::int) < 50" "(0::int) \<le> 100"
    and a: "''SBER'' \<in> field_names" by (simp_all add: field_names_eq)
  note t1 = trade_formulas_and_value [of chill_start "''SBER''" "Decimal 250 0" 100 s1 0]
  note t2 = trade_formulas_and_value [of s1 "''SBER''" "Decimal 250 0" 50 s2 0]
  from t1 chill_start_ok(4) b
  have "cash s1 = dsub (cash chill_start) (dmul (Decimal 250 0) (Decimal_of_int 100))"
    and "assets s1 ''SBER'' = Some (holding chill_start ''SBER'' + 100)"
    by blast+
  then have f1: "cash s1 = Decimal 75000 0" "assets s1 ''SBER'' = Some 100"
    by (simp_all add: chill_scenario(2) chill_start_ok(5))
  from t1 chill_start_ok(1-3) q(1) a b
  have v1: "deq (fst (value s1)) (fst (value chill_start))" by blast
  have p1: "current_prices s1 = current_prices chill_start"
    using b by (rule trade_prices)
  have "solvent s1"
    unfolding s1_def by (rule buy_solvent [OF chill_start_ok(1) q(3)])
  moreover have "prices_nonneg (current_prices s1)"
    "getattr (current_prices s1) ''SBER'' = Field (Decimal 250 0)"
    by (simp_all add: p1 chill_start_ok)
  moreover have "fits 0 s1"
    using buy_keeps_total [OF chill_start_ok(1-3) q(3) a b] by simp
  ultimately have ok1: "solvent s1" "prices_nonneg (current_prices s1)" "fits 0 s1"
    "getattr (current_prices s1) ''SBER'' = Field (Decimal 250 0)"
    by simp_all
  from t2 ok1(4) s
  have "cash s2 = dadd (cash s1) (dmul (Decimal 250 0) (Decimal_of_int 50))"
    and "assets s2 ''SBER'' = Some (holding s1 ''SBER'' - 50)"
    by blast+
  then have f2: "cash s2 = Decimal 87500 0" "assets s2 ''SBER'' = Some 50"
    by (simp_all add: f1 chill_scenario(6) holding_def)
  from t2 ok1(1-3) q(2) a s
  have v2: "deq (fst (value s2)) (fst (value s1))" by blast
  from init_chill_start chill_start_ok(1-4) b s q a f1 f2 v1 v2 chill_scenario(3) show ?thesis
    unfolding s2_def s1_def by blast
qed

lemma big_cash_run:
  "fst (buy (real_start big_cash) ''SBER'' 1) = None"
  "cash (snd (buy (real_start big_cash) ''SBER'' 1)) = Decimal 1999999999999999999999999976 1"
  "fst (value (real_start big_cash)) = Decimal 2000000000000000000000000001 1"
  "fst (value (snd (buy (real_start big_cash) ''SBER'' 1))) = Decimal 2000000000000000000000000002 1"
  "\<not> deq (Decimal 2000000000000000000000000002 1) (Decimal 2000000000000000000000000001 1)"
  by code_simp+

text \<open>
  C3 as stated fails where a result needs more than 28 digits. On the replayed history
  with a starting cash of 20000000000000000000000000010, the total value is 2E+28 + 10
  before \<^verbatim>\<open>buy('SBER', 1)\<close> at 255: the cash after it, 2E+28 - 245, is rounded to
  2E+28 - 240, and the total value read then is 2E+28 + 15 rounded to 2E+28 + 20.
\<close>

theorem rounding_changes_total_value:
  "PortfolioSimulator_init script_uniform 738773 (Some ''logo'') RealAssetPriceHistory
     big_cash Map.empty = Inr (real_start big_cash) \<and>
   ''SBER'' \<in> field_names \<and>
   fst (buy (real_start big_cash) ''SBER'' 1) = None \<and>
   cash (snd (buy (real_start big_cash) ''SBER'' 1)) = Decimal 1999999999999999999999999976 1 \<and>
   fst (value (real_start big_cash)) = Decimal 2000000000000000000000000001 1 \<and>
   fst (value (snd (buy (real_start big_cash) ''SBER'' 1))) = Decimal 2000000000000000000000000002 1 \<and>
   \<not> deq (fst (value (snd (buy (real_start big_cash) ''SBER'' 1))))
          (fst (value (real_start big_cash)))"
  using init_real_start [of big_cash 738773] big_cash_run
  by (simp add: big_cash_def field_names_eq)

end
